theory Spec2Isabelle
  imports Complex_Main "HOL-Library.Sublist"
begin

section \<open>Python strings\<close>

text \<open>
  Strings are character lists. The source only inspects ASCII characters (separators,
  extensions, URL schemes), so case conversion is modelled on the ASCII letters and leaves
  every other character unchanged.
\<close>

definition startswith :: "string \<Rightarrow> string \<Rightarrow> bool" where
  "startswith s p = (take (length p) s = p)"

definition endswith :: "string \<Rightarrow> string \<Rightarrow> bool" where
  "endswith s x = (length x \<le> length s \<and> drop (length s - length x) s = x)"

definition lower_char :: "char \<Rightarrow> char" where
  "lower_char c =
     (case map_of (zip ''ABCDEFGHIJKLMNOPQRSTUVWXYZ'' ''abcdefghijklmnopqrstuvwxyz'') c of
        Some l \<Rightarrow> l | None \<Rightarrow> c)"

definition upper_char :: "char \<Rightarrow> char" where
  "upper_char c =
     (case map_of (zip ''abcdefghijklmnopqrstuvwxyz'' ''ABCDEFGHIJKLMNOPQRSTUVWXYZ'') c of
        Some u \<Rightarrow> u | None \<Rightarrow> c)"

definition lower :: "string \<Rightarrow> string" where
  "lower s = map lower_char s"

definition upper :: "string \<Rightarrow> string" where
  "upper s = map upper_char s"

definition chiffre :: "nat \<Rightarrow> char" where
  "chiffre n = ''0123456789'' ! n"

text \<open>\<open>str(n)\<close> for a non-negative integer: its decimal digits.\<close>

fun str_nat :: "nat \<Rightarrow> string" where
  "str_nat n = (if n < 10 then [chiffre n] else str_nat (n div 10) @ [chiffre (n mod 10)])"

declare str_nat.simps [simp del]

section \<open>Exceptions\<close>

text \<open>
  An exception is its Python class and its message. The messages are the ones the source
  builds, one constructor per \<open>raise\<close> site, with the interpolated values as arguments;
  \<open>Lib\<close> is the message of an exception raised inside a library, \<open>Champ_inconnu\<close>
  the message of pydantic for an attribute that is no field of the model. \<open>HTTPException n\<close> is
  FastAPI's exception with status code \<open>n\<close>, its message the \<open>detail\<close>. \<open>AutreErreur\<close>
  stands for every exception class the source never names in an \<open>except\<close> clause
  (\<open>UnicodeDecodeError\<close>, \<open>PermissionError\<close>, \<open>JSONDecodeError\<close>, ...).
\<close>

datatype msg =
    Acces_non_autorise
  | Format_distant_non_supporte string
  | Format_local_non_supporte string
  | Fichier_introuvable string
  | Erreur_de_parsing_CSV
  | Erreur_de_telechargement string msg
  | Une_erreur_est_survenue msg
  | Format_de_fichier_non_supporte
  | Erreur_de_lecture_du_fichier msg
  | Aucune_colonne_numerique
  | Erreur_de_preparation msg
  | Colonne_de_couleur_introuvable string
  | Erreur_execution string msg
  | Echec_de_la_reduction
  | Erreur_de_validation msg
  | Erreur_de_nettoyage msg
  | Champ_inconnu string string
  | Lib string

datatype exc_class =
    ValueError
  | FileNotFoundError
  | ParserError
  | RequestException
  | KeyError
  | IndexError
  | Exception
  | HTTPException nat
  | AutreErreur string

datatype exc = Raise exc_class msg

fun str_exc :: "exc \<Rightarrow> msg" where
  "str_exc (Raise c m) = m"

fun classe :: "exc \<Rightarrow> exc_class" where
  "classe (Raise c m) = c"

section \<open>Frames\<close>

text \<open>
  A pandas DataFrame: the column labels and the rows, each row with its index label (the
  row key) and one cell per column. A cell is a number, a text or a missing value (NaN).
  A Series is a list of keyed cells, a NumPy matrix a list of rows.
\<close>

datatype cell = Num real | Txt string | NA

record frame =
  columns :: "string list"
  rows :: "(nat \<times> cell list) list"

type_synonym series = "(nat \<times> cell) list"

type_synonym matrix = "real list list"

definition index :: "frame \<Rightarrow> nat list" where
  "index f = map fst (rows f)"

text \<open>\<open>DataFrame.empty\<close>: one of the axes has length 0.\<close>

definition empty_frame :: "frame \<Rightarrow> bool" where
  "empty_frame f = (columns f = [] \<or> rows f = [])"

section \<open>External operations\<close>

text \<open>
  Everything the source calls outside itself is a parameter: the third-party libraries
  (pandas, csv, scikit-learn, umap-learn, plotly) and the modules of the package that
  the source imports. Each returns a value or raises. The calls that touch a data source,
  run a reduction or write a file are recorded as events, in the order they happen;
  \<open>Acces f src\<close> is the call of \<open>f\<close> on the path or URL \<open>src\<close>.
\<close>

datatype event =
    Lecture_televersement string
  | Appel_read_csv char
  | Appel_read_excel
  | Appel_selecteur nat
  | Appel_ACP nat
  | Appel_TSNE nat int
  | Appel_UMAP nat int real
  | Appel_plotly string
  | Ecriture_rendu string
  | Acces string string
  | Appel_pd_read_csv string "char option"

record televersement =
  filename :: string
  contenu :: string

record env =
  decode_utf8 :: "string \<Rightarrow> string option"
  decode_latin1 :: "string \<Rightarrow> string"
  csv_sniff :: "string \<Rightarrow> exc + char"
  pd_read_csv :: "string \<Rightarrow> char \<Rightarrow> exc + frame"
  pd_read_excel :: "string \<Rightarrow> exc + frame"

section \<open>api.py: the upload helper\<close>

text \<open>
  \<open>obtenir_df_depuis_televersement\<close>. The extension test comes first; the content is
  read once after it; every exception of the decoding and parsing is turned into an HTTP
  400. \<open>bytes.decode('utf-8')\<close> raises only \<open>UnicodeDecodeError\<close>, so it is an option.
\<close>

definition lire_televersement :: "env \<Rightarrow> televersement \<Rightarrow> (exc + frame) \<times> event list" where
  "lire_televersement env fichier =
     (if endswith (filename fichier) ''.csv'' then
        (let contenu_decode =
               (case decode_utf8 env (contenu fichier) of
                  Some t \<Rightarrow> t
                | None \<Rightarrow> decode_latin1 env (contenu fichier));
             echantillon = take 1000 contenu_decode;
             separateur =
               (case csv_sniff env echantillon of
                  Inr d \<Rightarrow> d
                | Inl e \<Rightarrow> CHR '','')
         in (pd_read_csv env contenu_decode separateur, [Appel_read_csv separateur]))
      else (pd_read_excel env (contenu fichier), [Appel_read_excel]))"

definition obtenir_df_depuis_televersement ::
  "env \<Rightarrow> televersement \<Rightarrow> (exc + frame) \<times> event list" where
  "obtenir_df_depuis_televersement env fichier =
     (if \<not> (endswith (filename fichier) ''.csv'' \<or> endswith (filename fichier) ''.xlsx'')
      then (Inl (Raise (HTTPException 400) Format_de_fichier_non_supporte), [])
      else
        (case lire_televersement env fichier of
           (Inl e, evs) \<Rightarrow>
             (Inl (Raise (HTTPException 400) (Erreur_de_lecture_du_fichier (str_exc e))),
              Lecture_televersement (filename fichier) # evs)
         | (Inr df, evs) \<Rightarrow> (Inr df, Lecture_televersement (filename fichier) # evs)))"

section \<open>api.py: the visualisation parameters\<close>

text \<open>
  \<open>ParametresVisualisation\<close>, with the defaults and bounds of its \<open>Field\<close>s. The JSON
  text is parsed by pydantic; the model starts from the parsed fields, each present or
  absent. An absent field takes its default, a present one is checked against its bound
  (\<open>ge\<close>).
\<close>

record ParametresVisualisation =
  colonne_couleur :: "string option"
  titre :: string
  perplexite :: int
  n_voisins :: int
  dist_min :: real

record champs_json =
  champ_colonne_couleur :: "string option"
  champ_titre :: "string option"
  champ_perplexite :: "int option"
  champ_n_voisins :: "int option"
  champ_dist_min :: "real option"

definition valeur_ou_defaut :: "'a option \<Rightarrow> 'a \<Rightarrow> 'a" where
  "valeur_ou_defaut v d = (case v of None \<Rightarrow> d | Some x \<Rightarrow> x)"

definition model_validate_json :: "champs_json \<Rightarrow> exc + ParametresVisualisation" where
  "model_validate_json j =
     (let p = valeur_ou_defaut (champ_perplexite j) 30;
          n = valeur_ou_defaut (champ_n_voisins j) 15;
          d = valeur_ou_defaut (champ_dist_min j) 0.1
      in if p < 1 then Inl (Raise (AutreErreur ''ValidationError'') (Lib ''perplexite''))
         else if n < 2 then Inl (Raise (AutreErreur ''ValidationError'') (Lib ''n_voisins''))
         else if d < 0 then Inl (Raise (AutreErreur ''ValidationError'') (Lib ''dist_min''))
         else Inr \<lparr>colonne_couleur = champ_colonne_couleur j,
                   titre = valeur_ou_defaut (champ_titre j) ''Visualisation Interactive'',
                   perplexite = p, n_voisins = n, dist_min = d\<rparr>)"

section \<open>The libraries of the reduction\<close>

text \<open>
  The modules \<open>netoyage\<close>, \<open>numeric_data\<close>, \<open>methode_acp\<close>, \<open>auto_selector\<close> and
  \<open>clean_dataframe_for_json\<close> of the package, scikit-learn's \<open>TSNE\<close>, umap-learn's
  \<open>UMAP\<close>, plotly and \<open>uuid4\<close>. \<open>TSNE_fit_transform n p df\<close> is
  \<open>TSNE(n_components=n, perplexity=p).fit_transform(df)\<close>, and likewise for UMAP.
\<close>

record bibliotheques =
  gerer_les_valeurs_manquantes :: "frame \<Rightarrow> string \<Rightarrow> exc + frame"
  gerer_les_valeurs_duplicates :: "frame \<Rightarrow> exc + frame"
  num_col :: "frame \<Rightarrow> exc + frame"
  acp_reduction :: "frame \<Rightarrow> nat \<Rightarrow> exc + matrix"
  selection_methode :: "frame \<Rightarrow> nat \<Rightarrow> exc + string"
  clean_dataframe_for_json :: "frame \<Rightarrow> exc + frame"
  TSNE_fit_transform :: "nat \<Rightarrow> int \<Rightarrow> frame \<Rightarrow> exc + matrix"
  UMAP_fit_transform :: "nat \<Rightarrow> int \<Rightarrow> real \<Rightarrow> frame \<Rightarrow> exc + matrix"
  plotly_to_html :: "frame \<Rightarrow> string \<Rightarrow> string option \<Rightarrow> string list \<Rightarrow> exc + string"
  uuid4 :: string

section \<open>methode_tsne.py and methode_umap.py\<close>

text \<open>
  An argument the caller leaves out is \<open>None\<close> and takes the default of the signature:
  \<open>tsne_reduction(self, nombre_de_dimension = 1, perplexity=5)\<close> and
  \<open>umap_reduction(self, nombre_de_dimension = 1, n_neighbors=10, min_dist=0.1)\<close>.
  Neither method checks its arguments.
\<close>

definition tsne_reduction ::
  "bibliotheques \<Rightarrow> frame \<Rightarrow> nat option \<Rightarrow> int option \<Rightarrow> (exc + matrix) \<times> event list" where
  "tsne_reduction b df nombre_de_dimension perplexity =
     (let n = valeur_ou_defaut nombre_de_dimension 1;
          p = valeur_ou_defaut perplexity 5
      in (TSNE_fit_transform b n p df, [Appel_TSNE n p]))"

definition umap_reduction ::
  "bibliotheques \<Rightarrow> frame \<Rightarrow> nat option \<Rightarrow> int option \<Rightarrow> real option \<Rightarrow>
     (exc + matrix) \<times> event list" where
  "umap_reduction b df nombre_de_dimension n_neighbors min_dist =
     (let n = valeur_ou_defaut nombre_de_dimension 1;
          k = valeur_ou_defaut n_neighbors 10;
          d = valeur_ou_defaut min_dist 0.1
      in (UMAP_fit_transform b n k d df, [Appel_UMAP n k d]))"

section \<open>pandas operations used by the orchestration\<close>

definition cell_at :: "cell list \<Rightarrow> nat \<Rightarrow> cell" where
  "cell_at r j = (if j < length r then r ! j else NA)"

fun position :: "'a \<Rightarrow> 'a list \<Rightarrow> nat option" where
  "position c [] = None"
| "position c (x # xs) = (if x = c then Some 0 else map_option Suc (position c xs))"

text \<open>
  \<open>pd.DataFrame(m, columns=cols, index=idx)\<close> on a matrix raises \<open>ValueError\<close> unless the
  matrix has one row per index label and one entry per column label.
\<close>

definition DataFrame :: "matrix \<Rightarrow> string list \<Rightarrow> nat list \<Rightarrow> exc + frame" where
  "DataFrame m cols idx =
     (if length m = length idx \<and> (\<forall>r \<in> set m. length r = length cols)
      then Inr \<lparr>columns = cols, rows = zip idx (map (map Num) m)\<rparr>
      else Inl (Raise ValueError (Lib ''Shape of passed values'')))"

text \<open>
  \<open>df.loc[cles, c]\<close> with a list of row keys: every row of \<open>df\<close> that carries the key,
  key after key; \<open>KeyError\<close> when the column or one of the keys is absent. Column labels
  are taken to be unique (\<open>read_csv\<close> and \<open>read_excel\<close> make them so).
\<close>

definition loc :: "frame \<Rightarrow> nat list \<Rightarrow> string \<Rightarrow> exc + series" where
  "loc f cles c =
     (case position c (columns f) of
        None \<Rightarrow> Inl (Raise KeyError (Lib c))
      | Some j \<Rightarrow>
          if \<forall>k \<in> set cles. k \<in> set (index f)
          then Inr (concat (map (\<lambda>k. map (\<lambda>(k', r). (k', cell_at r j))
                                       (filter (\<lambda>(k', r). k' = k) (rows f))) cles))
          else Inl (Raise KeyError (Lib ''not in index'')))"

text \<open>
  \<open>df[c] = valeurs\<close> with one value per row: the column \<open>c\<close> is replaced when it exists
  and appended as the last column otherwise.
\<close>

definition setitem :: "frame \<Rightarrow> string \<Rightarrow> cell list \<Rightarrow> frame" where
  "setitem f c vs =
     (case position c (columns f) of
        None \<Rightarrow> \<lparr>columns = columns f @ [c],
                 rows = map (\<lambda>((k, r), v). (k, r @ [v])) (zip (rows f) vs)\<rparr>
      | Some j \<Rightarrow> \<lparr>columns = columns f,
                   rows = map (\<lambda>((k, r), v). (k, r[j := v])) (zip (rows f) vs)\<rparr>)"

text \<open>
  \<open>df[c] = s\<close> with a Series: when the Series carries the index of the frame its values
  are taken as they are; otherwise it is reindexed on the index of the frame, which
  raises \<open>ValueError\<close> when the Series has a duplicate key and gives NaN for a key the
  Series lacks.
\<close>

definition setitem_series :: "frame \<Rightarrow> string \<Rightarrow> series \<Rightarrow> exc + frame" where
  "setitem_series f c s =
     (if map fst s = index f then Inr (setitem f c (map snd s))
      else if \<not> distinct (map fst s)
      then Inl (Raise ValueError (Lib ''cannot reindex on an axis with duplicate labels''))
      else Inr (setitem f c
                  (map (\<lambda>k. case map_of s k of Some v \<Rightarrow> v | None \<Rightarrow> NA) (index f))))"

section \<open>api.py: the orchestration of a reduction\<close>

text \<open>
  \<open>creer_graphique_interactif\<close>, one definition for each numbered step of the source.
  Step 1 cleans with the strategy \<open>drop\<close> and takes the numeric columns; every exception
  there, the \<open>ValueError\<close> of the empty result included, becomes an HTTP 400.
\<close>

definition preparation :: "bibliotheques \<Rightarrow> frame \<Rightarrow> exc + (frame \<times> frame)" where
  "preparation b donnees_brutes =
     (case gerer_les_valeurs_manquantes b donnees_brutes ''drop'' of
        Inl e \<Rightarrow> Inl (Raise (HTTPException 400) (Erreur_de_preparation (str_exc e)))
      | Inr donnees_propres \<Rightarrow>
          (case num_col b donnees_propres of
             Inl e \<Rightarrow> Inl (Raise (HTTPException 400) (Erreur_de_preparation (str_exc e)))
           | Inr donnees_numeriques \<Rightarrow>
               if empty_frame donnees_numeriques
               then Inl (Raise (HTTPException 400)
                          (Erreur_de_preparation Aucune_colonne_numerique))
               else Inr (donnees_propres, donnees_numeriques)))"

text \<open>
  Step 2. \<open>if parametres.colonne_couleur\<close> holds for a name that is given and not
  empty. The name is looked up in the columns of the raw frame, the values in the
  cleaned frame at the row keys of the numeric frame.
\<close>

definition couleur_demandee :: "ParametresVisualisation \<Rightarrow> string option" where
  "couleur_demandee parametres =
     (case colonne_couleur parametres of
        None \<Rightarrow> None
      | Some c \<Rightarrow> if c = [] then None else Some c)"

definition gerer_couleur ::
  "ParametresVisualisation \<Rightarrow> frame \<Rightarrow> frame \<Rightarrow> frame \<Rightarrow> exc + series option" where
  "gerer_couleur parametres donnees_brutes donnees_propres donnees_numeriques =
     (case couleur_demandee parametres of
        None \<Rightarrow> Inr None
      | Some c \<Rightarrow>
          if c \<notin> set (columns donnees_brutes)
          then Inl (Raise (HTTPException 404) (Colonne_de_couleur_introuvable c))
          else (case loc donnees_propres (index donnees_numeriques) c of
                  Inl e \<Rightarrow> Inl e
                | Inr s \<Rightarrow> Inr (Some s)))"

text \<open>Step 3. The selector runs outside every \<open>try\<close>: what it raises is not wrapped.\<close>

definition selectionner ::
  "bibliotheques \<Rightarrow> string \<Rightarrow> frame \<Rightarrow> nat \<Rightarrow> (exc + string) \<times> event list" where
  "selectionner b methode donnees_numeriques n_composantes =
     (if methode = ''auto''
      then (selection_methode b donnees_numeriques n_composantes,
            [Appel_selecteur n_composantes])
      else (Inr methode, []))"

text \<open>
  Step 4. The names of the coordinate columns are \<open>f"PC_{i+1}"\<close>, \<open>f"TSNE_{i+1}"\<close> and
  \<open>f"UMAP_{i+1}"\<close> for \<open>i\<close> in \<open>range(n_composantes)\<close>. A method name that is none of
  the three leaves \<open>donnees_reduites\<close> at \<open>None\<close>. Every exception of a reduction becomes
  an HTTP 500 that names the method in upper case.
\<close>

definition noms_colonnes :: "string \<Rightarrow> nat \<Rightarrow> string list" where
  "noms_colonnes prefixe n = map (\<lambda>i. prefixe @ ''_'' @ str_nat (i + 1)) [0..<n]"

definition appeler_reduction ::
  "bibliotheques \<Rightarrow> string \<Rightarrow> frame \<Rightarrow> nat \<Rightarrow> ParametresVisualisation \<Rightarrow>
     (exc + (matrix \<times> string list) option) \<times> event list" where
  "appeler_reduction b nom_methode donnees_numeriques n_composantes parametres =
     (if nom_methode = ''acp'' then
        (case acp_reduction b donnees_numeriques n_composantes of
           Inl e \<Rightarrow> (Inl e, [Appel_ACP n_composantes])
         | Inr m \<Rightarrow> (Inr (Some (m, noms_colonnes ''PC'' n_composantes)),
                     [Appel_ACP n_composantes]))
      else if nom_methode = ''tsne'' then
        (case tsne_reduction b donnees_numeriques (Some n_composantes)
                (Some (perplexite parametres)) of
           (Inl e, evs) \<Rightarrow> (Inl e, evs)
         | (Inr m, evs) \<Rightarrow> (Inr (Some (m, noms_colonnes ''TSNE'' n_composantes)), evs))
      else if nom_methode = ''umap'' then
        (case umap_reduction b donnees_numeriques (Some n_composantes)
                (Some (n_voisins parametres)) (Some (dist_min parametres)) of
           (Inl e, evs) \<Rightarrow> (Inl e, evs)
         | (Inr m, evs) \<Rightarrow> (Inr (Some (m, noms_colonnes ''UMAP'' n_composantes)), evs))
      else (Inr None, []))"

definition executer_reduction ::
  "bibliotheques \<Rightarrow> string \<Rightarrow> frame \<Rightarrow> nat \<Rightarrow> ParametresVisualisation \<Rightarrow>
     (exc + (matrix \<times> string list) option) \<times> event list" where
  "executer_reduction b nom_methode donnees_numeriques n_composantes parametres =
     (case appeler_reduction b nom_methode donnees_numeriques n_composantes parametres of
        (Inl e, evs) \<Rightarrow>
          (Inl (Raise (HTTPException 500) (Erreur_execution (upper nom_methode) (str_exc e))),
           evs)
      | (Inr r, evs) \<Rightarrow> (Inr r, evs))"

text \<open>
  Step 5. The frame of the plot: the coordinates under the index of the numeric frame,
  then the column \<open>hover_name\<close> (the row keys as text), then the colour column when one
  was asked for. The exceptions of pandas here are not caught.
\<close>

definition preparer_dataframe ::
  "(matrix \<times> string list) option \<Rightarrow> frame \<Rightarrow> ParametresVisualisation \<Rightarrow>
     series option \<Rightarrow> exc + (frame \<times> string list)" where
  "preparer_dataframe donnees_reduites donnees_numeriques parametres donnees_couleur =
     (case donnees_reduites of
        None \<Rightarrow> Inl (Raise (HTTPException 500) Echec_de_la_reduction)
      | Some (m, noms) \<Rightarrow>
          (case DataFrame m noms (index donnees_numeriques) of
             Inl e \<Rightarrow> Inl e
           | Inr g \<Rightarrow>
               (let g' = setitem g ''hover_name'' (map (\<lambda>k. Txt (str_nat k)) (index g))
                in case donnees_couleur of
                     None \<Rightarrow> Inr (g', noms)
                   | Some s \<Rightarrow>
                       (case setitem_series g'
                               (valeur_ou_defaut (colonne_couleur parametres) []) s of
                          Inl e \<Rightarrow> Inl e
                        | Inr g'' \<Rightarrow> Inr (g'', noms)))))"

text \<open>
  Steps 1 to 5 together: the frame handed to plotly, the names of its coordinate columns
  and the method that ran.
\<close>

definition donnees_graphique ::
  "bibliotheques \<Rightarrow> frame \<Rightarrow> string \<Rightarrow> nat \<Rightarrow> ParametresVisualisation \<Rightarrow>
     (exc + (frame \<times> string list \<times> string)) \<times> event list" where
  "donnees_graphique b donnees_brutes methode n_composantes parametres =
     (case preparation b donnees_brutes of
        Inl e \<Rightarrow> (Inl e, [])
      | Inr (donnees_propres, donnees_numeriques) \<Rightarrow>
          (case gerer_couleur parametres donnees_brutes donnees_propres donnees_numeriques of
             Inl e \<Rightarrow> (Inl e, [])
           | Inr donnees_couleur \<Rightarrow>
               (case selectionner b methode donnees_numeriques n_composantes of
                  (Inl e, evs) \<Rightarrow> (Inl e, evs)
                | (Inr nom_methode, evs) \<Rightarrow>
                    (case executer_reduction b nom_methode donnees_numeriques n_composantes
                            parametres of
                       (Inl e, evs') \<Rightarrow> (Inl e, evs @ evs')
                     | (Inr donnees_reduites, evs') \<Rightarrow>
                         (case preparer_dataframe donnees_reduites donnees_numeriques
                                 parametres donnees_couleur of
                            Inl e \<Rightarrow> (Inl e, evs @ evs')
                          | Inr (g, noms) \<Rightarrow>
                              (Inr (g, noms, nom_methode), evs @ evs'))))))"

text \<open>
  Step 6. The title is \<open>f"{titre} ({nom_methode.upper()} {n_composantes}D)"\<close>; two axes
  when \<open>n_composantes\<close> is 2 and three otherwise, where \<open>noms_colonnes[2]\<close> raises
  \<open>IndexError\<close> on fewer than three names.
\<close>

definition generer_graphique ::
  "bibliotheques \<Rightarrow> frame \<Rightarrow> string list \<Rightarrow> string \<Rightarrow> nat \<Rightarrow> ParametresVisualisation \<Rightarrow>
     (exc + string) \<times> event list" where
  "generer_graphique b g noms nom_methode n_composantes parametres =
     (let t = titre parametres @ '' ('' @ upper nom_methode @ '' '' @ str_nat n_composantes
                @ ''D)''
      in if n_composantes = 2 \<and> 2 \<le> length noms
         then (plotly_to_html b g t (colonne_couleur parametres) [noms ! 0, noms ! 1],
               [Appel_plotly t])
         else if 3 \<le> length noms
         then (plotly_to_html b g t (colonne_couleur parametres)
                 [noms ! 0, noms ! 1, noms ! 2], [Appel_plotly t])
         else (Inl (Raise IndexError (Lib ''list index out of range'')), []))"

definition creer_graphique_interactif ::
  "bibliotheques \<Rightarrow> frame \<Rightarrow> string \<Rightarrow> nat \<Rightarrow> ParametresVisualisation \<Rightarrow>
     (exc + (string \<times> string)) \<times> event list" where
  "creer_graphique_interactif b donnees_brutes methode n_composantes parametres =
     (case donnees_graphique b donnees_brutes methode n_composantes parametres of
        (Inl e, evs) \<Rightarrow> (Inl e, evs)
      | (Inr (g, noms, nom_methode), evs) \<Rightarrow>
          (case generer_graphique b g noms nom_methode n_composantes parametres of
             (Inl e, evs') \<Rightarrow> (Inl e, evs @ evs')
           | (Inr html, evs') \<Rightarrow> (Inr (html, nom_methode), evs @ evs')))"

section \<open>api.py: the reduction endpoints\<close>

text \<open>
  The renders are files of \<open>storage/renders\<close>: a list of file names with their content.
  \<open>sauvegarder_rendu_html\<close> writes \<open>rendu_<uuid4>.html\<close>, replacing a file of that name,
  and returns its URL under the base URL of the request without its trailing slashes.
\<close>

type_synonym stockage = "(string \<times> string) list"

definition rstrip_slash :: "string \<Rightarrow> string" where
  "rstrip_slash s = rev (dropWhile (\<lambda>c. c = CHR ''/'') (rev s))"

definition sauvegarder_rendu_html ::
  "bibliotheques \<Rightarrow> stockage \<Rightarrow> string \<Rightarrow> string \<Rightarrow> (string \<times> stockage) \<times> event list" where
  "sauvegarder_rendu_html b st contenu_html url_base_requete =
     (let nom_fichier = ''rendu_'' @ uuid4 b @ ''.html''
      in ((rstrip_slash url_base_requete @ ''/static/renders/'' @ nom_fichier,
           (nom_fichier, contenu_html) # filter (\<lambda>(n, c). n \<noteq> nom_fichier) st),
          [Ecriture_rendu nom_fichier]))"

record ReponseVisualisation =
  statut :: string
  methode_utilisee :: string
  message :: string
  url_rendu :: string
  contenu_html :: string

text \<open>
  \<open>reduire_visualiser_2d\<close> and \<open>reduire_visualiser_3d\<close> differ in the number of
  components they force and in the digit of the message (its accented letters are the
  two bytes of their UTF-8 encoding). FastAPI has checked before that
  \<open>methode\<close> is one of \<open>acp\<close>, \<open>tsne\<close>, \<open>umap\<close>, \<open>auto\<close>. The result is the response or
  the exception, with the storage after the call.
\<close>

definition e_aigu :: string where
  "e_aigu = [CHR 0xC3, CHR 0xA9]"

definition e_grave :: string where
  "e_grave = [CHR 0xC3, CHR 0xA8]"

definition reduire_visualiser ::
  "nat \<Rightarrow> env \<Rightarrow> bibliotheques \<Rightarrow> stockage \<Rightarrow> string \<Rightarrow> string \<Rightarrow> televersement \<Rightarrow>
     champs_json \<Rightarrow> ((exc + ReponseVisualisation) \<times> stockage) \<times> event list" where
  "reduire_visualiser n e b st base_url methode fichier parametres_json =
     (case obtenir_df_depuis_televersement e fichier of
        (Inl x, evs) \<Rightarrow> ((Inl x, st), evs)
      | (Inr donnees, evs) \<Rightarrow>
          (case model_validate_json parametres_json of
             Inl x \<Rightarrow>
               ((Inl (Raise (HTTPException 422) (Erreur_de_validation (str_exc x))), st), evs)
           | Inr parametres \<Rightarrow>
               (case creer_graphique_interactif b donnees methode n parametres of
                  (Inl x, evs') \<Rightarrow> ((Inl x, st), evs @ evs')
                | (Inr (html, methode_ut), evs') \<Rightarrow>
                    (case sauvegarder_rendu_html b st html base_url of
                       ((url, st'), evs'') \<Rightarrow>
                         ((Inr \<lparr>statut = ''success'', methode_utilisee = methode_ut,
                                 message = ''Rendu '' @ str_nat n @ ''D '' @ upper methode_ut
                                   @ '' cr'' @ e_aigu @ e_aigu @ '' avec succ'' @ e_grave
                                   @ ''s.'',
                                 url_rendu = url, contenu_html = html\<rparr>, st'),
                          evs @ evs' @ evs'')))))"

definition reduire_visualiser_2d ::
  "env \<Rightarrow> bibliotheques \<Rightarrow> stockage \<Rightarrow> string \<Rightarrow> string \<Rightarrow> televersement \<Rightarrow>
     champs_json \<Rightarrow> ((exc + ReponseVisualisation) \<times> stockage) \<times> event list" where
  "reduire_visualiser_2d = reduire_visualiser 2"

definition reduire_visualiser_3d ::
  "env \<Rightarrow> bibliotheques \<Rightarrow> stockage \<Rightarrow> string \<Rightarrow> string \<Rightarrow> televersement \<Rightarrow>
     champs_json \<Rightarrow> ((exc + ReponseVisualisation) \<times> stockage) \<times> event list" where
  "reduire_visualiser_3d = reduire_visualiser 3"

section \<open>api.py: the cleaning endpoint\<close>

text \<open>
  \<open>ParametresNettoyage\<close> after validation: \<open>strategie_imputation\<close> is absent or one of
  \<open>mean\<close>, \<open>median\<close>, \<open>fill\<close>. The body of the \<open>try\<close> of \<open>nettoyer_donnees\<close> is
  \<open>nettoyage\<close>: the duplicates first, on the frame as uploaded, then the missing values on
  what the first step left, \<open>drop\<close> when \<open>supprimer_na\<close> is set and the imputation only
  in the \<open>elif\<close>. \<open>nettoyer_donnees\<close> is the endpoint from the upload to the frame that
  is serialised, for parameters that passed the validation.
\<close>

record ParametresNettoyage =
  supprimer_na :: bool
  supprimer_doublons :: bool
  strategie_imputation :: "string option"

definition nettoyage :: "bibliotheques \<Rightarrow> frame \<Rightarrow> ParametresNettoyage \<Rightarrow> exc + frame" where
  "nettoyage b donnees parametres =
     (case (if supprimer_doublons parametres then gerer_les_valeurs_duplicates b donnees
            else Inr donnees) of
        Inl x \<Rightarrow> Inl x
      | Inr donnees1 \<Rightarrow>
          if supprimer_na parametres
          then gerer_les_valeurs_manquantes b donnees1 ''drop''
          else (case strategie_imputation parametres of
                  None \<Rightarrow> Inr donnees1
                | Some strategie \<Rightarrow>
                    if strategie = [] then Inr donnees1
                    else gerer_les_valeurs_manquantes b donnees1 strategie))"

definition nettoyer_donnees ::
  "env \<Rightarrow> bibliotheques \<Rightarrow> televersement \<Rightarrow> ParametresNettoyage \<Rightarrow>
     (exc + frame) \<times> event list" where
  "nettoyer_donnees e b fichier parametres =
     (case obtenir_df_depuis_televersement e fichier of
        (Inl x, evs) \<Rightarrow> (Inl x, evs)
      | (Inr donnees, evs) \<Rightarrow>
          (case nettoyage b donnees parametres of
             Inl x \<Rightarrow> (Inl (Raise (HTTPException 500) (Erreur_de_nettoyage (str_exc x))), evs)
           | Inr donnees' \<Rightarrow>
               (case clean_dataframe_for_json b donnees' of
                  Inl x \<Rightarrow>
                    (Inl (Raise (HTTPException 500) (Erreur_de_nettoyage (str_exc x))), evs)
                | Inr donnees_propres \<Rightarrow> (Inr donnees_propres, evs))))"

section \<open>loading.py: paths\<close>

text \<open>\<open>str.split\<close> on a one-character separator and \<open>str.join\<close>.\<close>

fun split_sep :: "char \<Rightarrow> string \<Rightarrow> string list" where
  "split_sep c [] = [[]]"
| "split_sep c (x # xs) =
     (if x = c then [] # split_sep c xs
      else (case split_sep c xs of
              [] \<Rightarrow> [[x]]
            | w # ws \<Rightarrow> (x # w) # ws))"

fun join :: "string \<Rightarrow> string list \<Rightarrow> string" where
  "join sep [] = []"
| "join sep [x] = x"
| "join sep (x # y # ys) = x @ sep @ join sep (y # ys)"

definition antislash :: char where
  "antislash = CHR 0x5C"

definition tabulation :: char where
  "tabulation = CHR 0x09"

text \<open>Lines 59 to 64: the Windows separators are replaced, then the URL test.\<close>

definition corriger_chemin :: "string \<Rightarrow> string" where
  "corriger_chemin file_path =
     (if antislash \<in> set file_path then join ''/'' (split_sep antislash file_path)
      else file_path)"

definition est_url :: "string \<Rightarrow> bool" where
  "est_url file_path = (startswith file_path ''http://'' \<or> startswith file_path ''https://'')"

text \<open>
  \<open>Path(p).suffix\<close>: the name is the last component of the path, empty components and
  \<open>.\<close> left out; the suffix starts at the last dot of the name, unless that dot is the
  first or the last character of the name. The file type is
  \<open>suffix.lower().replace('.', '')\<close>.
\<close>

definition parts :: "string \<Rightarrow> string list" where
  "parts p = filter (\<lambda>s. s \<noteq> [] \<and> s \<noteq> ''.'') (split_sep CHR ''/'' p)"

definition name :: "string \<Rightarrow> string" where
  "name p = (if parts p = [] then [] else last (parts p))"

definition rfind :: "char \<Rightarrow> string \<Rightarrow> nat option" where
  "rfind c s =
     (if c \<in> set s then Some (length s - 1 - length (takeWhile (\<lambda>x. x \<noteq> c) (rev s)))
      else None)"

definition suffixe :: "string \<Rightarrow> string" where
  "suffixe p =
     (case rfind CHR ''.'' (name p) of
        None \<Rightarrow> []
      | Some i \<Rightarrow> if 0 < i \<and> i < length (name p) - 1 then drop i (name p) else [])"

definition type_fichier :: "string \<Rightarrow> string" where
  "type_fichier file_path = filter (\<lambda>c. c \<noteq> CHR ''.'') (lower (suffixe file_path))"

section \<open>loading.py: the file system, the network and the parsers\<close>

text \<open>
  \<open>PROJECT_ROOT\<close> is \<open>Path(__file__).resolve().parents[3]\<close>, fixed by the place of the
  installation; \<open>resolve\<close> is \<open>Path(p).resolve()\<close>; both are lists of path components.
  \<open>readline p\<close> opens \<open>p\<close> as UTF-8 text and reads its first line, \<open>lire_fichier p\<close>
  reads it whole; \<open>read_csv src sep\<close> is \<open>pd.read_csv\<close> on a path or URL;
  \<open>requests_get url\<close> is \<open>requests.get\<close> followed by \<open>raise_for_status\<close>, giving the body
  of the response; \<open>image_rgb p\<close> is the array of \<open>Image.open(p).convert('RGB')\<close>, rows of
  pixels of three channels. A parsed JSON or YAML value is opaque.
\<close>

datatype pydata = Donnees string

datatype charge = Table frame | Tableau "nat list list list" | Texte string

record systeme =
  PROJECT_ROOT :: "string list"
  resolve :: "string \<Rightarrow> string list"
  path_exists :: "string \<Rightarrow> bool"
  readline :: "string \<Rightarrow> exc + string"
  lire_fichier :: "string \<Rightarrow> exc + string"
  read_csv :: "string \<Rightarrow> char option \<Rightarrow> exc + frame"
  read_excel :: "string \<Rightarrow> exc + frame"
  read_parquet :: "string \<Rightarrow> exc + frame"
  read_sql_query :: "string \<Rightarrow> string \<Rightarrow> exc + frame"
  image_rgb :: "string \<Rightarrow> exc + nat list list list"
  requests_get :: "string \<Rightarrow> exc + string"
  json_loads :: "string \<Rightarrow> exc + pydata"
  yaml_safe_load :: "string \<Rightarrow> exc + pydata"
  json_normalize :: "pydata \<Rightarrow> exc + frame"

definition puis :: "exc + 'a \<Rightarrow> ('a \<Rightarrow> exc + 'b) \<Rightarrow> exc + 'b" where
  "puis r f = (case r of Inl e \<Rightarrow> Inl e | Inr v \<Rightarrow> f v)"

definition en_table :: "exc + frame \<Rightarrow> exc + charge" where
  "en_table r = puis r (\<lambda>df. Inr (Table df))"

section \<open>loading.py: the remote sources\<close>

text \<open>
  Lines 90 to 126. CSV and Excel are read by pandas from the URL. Every other type is
  downloaded first, whatever the type; a \<open>RequestException\<close> of the download is raised
  again as an \<open>Exception\<close> with the download message; the type is looked at after the
  download.
\<close>

definition charger_distant :: "systeme \<Rightarrow> string \<Rightarrow> string \<Rightarrow> (exc + charge) \<times> event list"
  where
  "charger_distant sys file_path file_type =
     (if file_type = ''csv'' then
        (en_table (read_csv sys file_path None), [Appel_pd_read_csv file_path None])
      else if file_type = ''xls'' \<or> file_type = ''xlsx'' then
        (en_table (read_excel sys file_path), [Acces ''pd.read_excel'' file_path])
      else
        (case requests_get sys file_path of
           Inl e \<Rightarrow>
             (if classe e = RequestException
              then Inl (Raise Exception (Erreur_de_telechargement file_path (str_exc e)))
              else Inl e,
              [Acces ''requests.get'' file_path])
         | Inr r \<Rightarrow>
             (if file_type = ''json'' then
                en_table (puis (json_loads sys r) (json_normalize sys))
              else if file_type = ''yaml'' \<or> file_type = ''yml'' then
                en_table (puis (yaml_safe_load sys r) (json_normalize sys))
              else if file_type = ''txt'' then Inr (Texte r)
              else Inl (Raise ValueError (Format_distant_non_supporte file_type)),
              [Acces ''requests.get'' file_path])))"

section \<open>loading.py: the local files\<close>

text \<open>
  Lines 137 to 147: the candidates in their order, \<open>index_sepateur\<close> starting at 0, and
  the loop that stops at the first candidate found in the first line.
\<close>

definition sepateur_valeurs :: "char list" where
  "sepateur_valeurs = [CHR '';'', CHR ''|'', tabulation, CHR '','']"

fun premier_present :: "nat \<Rightarrow> char list \<Rightarrow> string \<Rightarrow> nat option" where
  "premier_present i [] ligne = None"
| "premier_present i (sep # seps) ligne =
     (if sep \<in> set ligne then Some i else premier_present (Suc i) seps ligne)"

definition index_sepateur :: "string \<Rightarrow> nat" where
  "index_sepateur premiere_ligne =
     (case premier_present 0 sepateur_valeurs premiere_ligne of
        None \<Rightarrow> 0
      | Some i \<Rightarrow> i)"

definition separateur :: "string \<Rightarrow> char" where
  "separateur premiere_ligne = sepateur_valeurs ! index_sepateur premiere_ligne"

definition charger_csv :: "systeme \<Rightarrow> string \<Rightarrow> (exc + charge) \<times> event list" where
  "charger_csv sys file_path =
     (case readline sys file_path of
        Inl e \<Rightarrow> (Inl e, [Acces ''open'' file_path])
      | Inr premiere_ligne \<Rightarrow>
          (case read_csv sys file_path (Some (separateur premiere_ligne)) of
             Inl e \<Rightarrow> if classe e = ParserError
                      then Inl (Raise ParserError Erreur_de_parsing_CSV) else Inl e
           | Inr df \<Rightarrow> Inr (Table df),
           [Acces ''open'' file_path,
            Appel_pd_read_csv file_path (Some (separateur premiere_ligne))]))"

text \<open>
  Lines 174 to 180: a frame with one row for each pixel, row after row, the columns
  \<open>R\<close>, \<open>G\<close>, \<open>B\<close>, then \<open>x\<close> and \<open>y\<close>.
\<close>

definition image_en_dataframe :: "nat list list list \<Rightarrow> frame" where
  "image_en_dataframe img_array =
     (let h = length img_array;
          w = (case img_array of [] \<Rightarrow> 0 | l # ls \<Rightarrow> length l);
          pixels = concat img_array;
          coords = concat (map (\<lambda>y. map (\<lambda>x. (x, y)) [0..<w]) [0..<h])
      in \<lparr>columns = [''R'', ''G'', ''B'', ''x'', ''y''],
          rows = map (\<lambda>(i, px, x, y). (i, map (\<lambda>v. Num (real v)) px @ [Num (real x), Num (real y)]))
                   (zip [0..<length pixels] (zip pixels coords))\<rparr>)"

definition non_vide :: "string option \<Rightarrow> bool" where
  "non_vide v = (case v of None \<Rightarrow> False | Some s \<Rightarrow> s \<noteq> [])"

definition charger_local ::
  "systeme \<Rightarrow> string \<Rightarrow> string \<Rightarrow> string option \<Rightarrow> string option \<Rightarrow> bool \<Rightarrow>
     (exc + charge) \<times> event list" where
  "charger_local sys file_path file_type sql_query db_path image_as_dataframe =
     (if file_type = ''csv'' then charger_csv sys file_path
      else if file_type = ''xls'' \<or> file_type = ''xlsx'' then
        (en_table (read_excel sys file_path), [Acces ''pd.read_excel'' file_path])
      else if file_type = ''json'' then
        (en_table (puis (puis (lire_fichier sys file_path) (json_loads sys))
                     (json_normalize sys)),
         [Acces ''open'' file_path])
      else if file_type = ''yaml'' \<or> file_type = ''yml'' then
        (en_table (puis (puis (lire_fichier sys file_path) (yaml_safe_load sys))
                     (json_normalize sys)),
         [Acces ''open'' file_path])
      else if file_type = ''parquet'' then
        (en_table (read_parquet sys file_path), [Acces ''pd.read_parquet'' file_path])
      else if file_type = ''sql'' \<and> non_vide db_path \<and> non_vide sql_query then
        (en_table (read_sql_query sys (valeur_ou_defaut sql_query [])
                     (valeur_ou_defaut db_path [])),
         [Acces ''sqlite3.connect'' (valeur_ou_defaut db_path [])])
      else if file_type = ''png'' \<or> file_type = ''jpg'' \<or> file_type = ''jpeg'' then
        (puis (image_rgb sys file_path)
           (\<lambda>img_array. if image_as_dataframe then Inr (Table (image_en_dataframe img_array))
                         else Inr (Tableau img_array)),
         [Acces ''Image.open'' file_path])
      else if file_type = ''txt'' then
        (puis (lire_fichier sys file_path) (\<lambda>t. Inr (Texte t)), [Acces ''open'' file_path])
      else (Inl (Raise ValueError (Format_local_non_supporte file_type)), []))"

section \<open>loading.py: load\<close>

text \<open>
  \<open>DataLoader\<close> is a pydantic \<open>BaseModel\<close> that declares the single field \<open>df\<close> and
  does not allow extra attributes: assigning to any other attribute of an instance
  raises \<open>ValueError\<close>.
\<close>

definition setattr_DataLoader :: "string \<Rightarrow> exc + unit" where
  "setattr_DataLoader nom =
     (if nom = ''df'' then Inr ()
      else Inl (Raise ValueError (Champ_inconnu ''DataLoader'' nom)))"

text \<open>
  The body of the \<open>try\<close> (lines 86 to 196), its handlers (lines 200 to 206), and the
  \<open>try\<close> statement as a whole.
\<close>

definition charger ::
  "systeme \<Rightarrow> string \<Rightarrow> bool \<Rightarrow> string \<Rightarrow> string option \<Rightarrow> string option \<Rightarrow> bool \<Rightarrow>
     (exc + charge) \<times> event list" where
  "charger sys file_path is_url file_type sql_query db_path image_as_dataframe =
     (if is_url then charger_distant sys file_path file_type
      else if path_exists sys file_path then
        (case charger_local sys file_path file_type sql_query db_path image_as_dataframe of
           (r, evs) \<Rightarrow> (r, Acces ''os.path.exists'' file_path # evs))
      else (Inl (Raise FileNotFoundError (Fichier_introuvable file_path)),
            [Acces ''os.path.exists'' file_path]))"

definition gestion_des_erreurs :: "exc + charge \<Rightarrow> exc + charge" where
  "gestion_des_erreurs r =
     (case r of
        Inr v \<Rightarrow> Inr v
      | Inl e \<Rightarrow>
          if classe e = FileNotFoundError then Inl e
          else if classe e = ParserError then Inl e
          else Inl (Raise Exception (Une_erreur_est_survenue (str_exc e))))"

definition essayer_charger ::
  "systeme \<Rightarrow> string \<Rightarrow> bool \<Rightarrow> string \<Rightarrow> string option \<Rightarrow> string option \<Rightarrow> bool \<Rightarrow>
     (exc + charge) \<times> event list" where
  "essayer_charger sys file_path is_url file_type sql_query db_path image_as_dataframe =
     (case charger sys file_path is_url file_type sql_query db_path image_as_dataframe of
        (r, evs) \<Rightarrow> (gestion_des_erreurs r, evs))"

text \<open>
  \<open>load\<close>. The containment test of lines 68 to 75 and the assignment
  \<open>self.format = file_type\<close> of line 84 both stand before the \<open>try\<close>: what they raise
  reaches the caller as it is.
\<close>

definition load ::
  "systeme \<Rightarrow> string \<Rightarrow> string option \<Rightarrow> string option \<Rightarrow> bool \<Rightarrow>
     (exc + charge) \<times> event list" where
  "load sys file_path0 sql_query db_path image_as_dataframe =
     (let file_path = corriger_chemin file_path0;
          is_url = est_url file_path
      in if \<not> is_url \<and> \<not> prefix (PROJECT_ROOT sys) (resolve sys file_path)
         then (Inl (Raise ValueError Acces_non_autorise), [])
         else
           (let file_type = type_fichier file_path
            in case setattr_DataLoader ''format'' of
                 Inl e \<Rightarrow> (Inl e, [])
               | Inr u \<Rightarrow>
                   essayer_charger sys file_path is_url file_type sql_query db_path
                     image_as_dataframe))"

section \<open>The cleaning modules, from the specification\<close>

text \<open>
  Modelled from the spec: \<open>packages/modules/netoyage.py\<close> (class \<open>Netoyage\<close>) is not
  among the sources. Specification 4.2: with \<open>drop\<close> the rows containing any missing
  value are removed; mean and median imputation apply per numeric column using that
  column's own mean or median, columns with no numeric values left unchanged;
  constant-fill replaces missing values with 0; duplicate removal keeps row keys, the
  first of equal rows staying. No operation renumbers the rows.
\<close>

definition ligne_complete :: "nat \<times> cell list \<Rightarrow> bool" where
  "ligne_complete l = (NA \<notin> set (snd l))"

definition supprimer_lignes_na :: "frame \<Rightarrow> frame" where
  "supprimer_lignes_na f = \<lparr>columns = columns f, rows = filter ligne_complete (rows f)\<rparr>"

definition valeurs_colonne :: "frame \<Rightarrow> nat \<Rightarrow> cell list" where
  "valeurs_colonne f j = map (\<lambda>(k, r). cell_at r j) (rows f)"

fun nombres :: "cell list \<Rightarrow> real list" where
  "nombres [] = []"
| "nombres (Num x # cs) = x # nombres cs"
| "nombres (c # cs) = nombres cs"

definition est_texte :: "cell \<Rightarrow> bool" where
  "est_texte c = (case c of Txt t \<Rightarrow> True | _ \<Rightarrow> False)"

definition moyenne :: "real list \<Rightarrow> real" where
  "moyenne xs = sum_list xs / real (length xs)"

definition mediane :: "real list \<Rightarrow> real" where
  "mediane xs =
     (let t = sort xs; n = length t
      in if odd n then t ! (n div 2) else (t ! (n div 2 - 1) + t ! (n div 2)) / 2)"

text \<open>The value that fills column \<open>j\<close>, if the column is numeric and has a number.\<close>

definition remplissage :: "(real list \<Rightarrow> real) \<Rightarrow> frame \<Rightarrow> nat \<Rightarrow> real option" where
  "remplissage stat f j =
     (let vs = valeurs_colonne f j
      in if (\<exists>c \<in> set vs. est_texte c) \<or> nombres vs = [] then None
         else Some (stat (nombres vs)))"

definition remplir_cellule :: "cell \<times> real option \<Rightarrow> cell" where
  "remplir_cellule cv = (case cv of (NA, Some v) \<Rightarrow> Num v | (c, v) \<Rightarrow> c)"

definition imputer :: "(real list \<Rightarrow> real) \<Rightarrow> frame \<Rightarrow> frame" where
  "imputer stat f =
     (let vs = map (remplissage stat f) [0..<length (columns f)]
      in \<lparr>columns = columns f,
          rows = map (\<lambda>(k, r). (k, map remplir_cellule (zip r vs))) (rows f)\<rparr>)"

definition remplir_zero :: "frame \<Rightarrow> frame" where
  "remplir_zero f =
     \<lparr>columns = columns f,
      rows = map (\<lambda>(k, r). (k, map (\<lambda>c. if c = NA then Num 0 else c) r)) (rows f)\<rparr>"

definition netoyage_valeurs_manquantes :: "frame \<Rightarrow> string \<Rightarrow> exc + frame" where
  "netoyage_valeurs_manquantes f strategy =
     (if strategy = ''drop'' then Inr (supprimer_lignes_na f)
      else if strategy = ''mean'' then Inr (imputer moyenne f)
      else if strategy = ''median'' then Inr (imputer mediane f)
      else if strategy = ''fill'' then Inr (remplir_zero f)
      else Inl (Raise ValueError (Lib strategy)))"

fun premieres_occurrences :: "cell list list \<Rightarrow> (nat \<times> cell list) list \<Rightarrow> (nat \<times> cell list) list"
  where
  "premieres_occurrences vus [] = []"
| "premieres_occurrences vus ((k, r) # ls) =
     (if r \<in> set vus then premieres_occurrences vus ls
      else (k, r) # premieres_occurrences (r # vus) ls)"

definition netoyage_valeurs_duplicates :: "frame \<Rightarrow> exc + frame" where
  "netoyage_valeurs_duplicates f =
     Inr \<lparr>columns = columns f, rows = premieres_occurrences [] (rows f)\<rparr>"

text \<open>
  Modelled from the spec: \<open>packages/modules/numeric_data.py\<close> (class \<open>Numeric_data\<close>) is
  not among the sources. Specification 4.3: only the columns whose values are uniformly
  numeric, the row keys unchanged.
\<close>

definition est_nombre :: "cell \<Rightarrow> bool" where
  "est_nombre c = (case c of Num x \<Rightarrow> True | _ \<Rightarrow> False)"

definition colonnes_numeriques :: "frame \<Rightarrow> nat list" where
  "colonnes_numeriques f =
     filter (\<lambda>j. \<forall>c \<in> set (valeurs_colonne f j). est_nombre c) [0..<length (columns f)]"

definition numeric_data_num_col :: "frame \<Rightarrow> exc + frame" where
  "numeric_data_num_col f =
     (let js = colonnes_numeriques f
      in Inr \<lparr>columns = map (\<lambda>j. columns f ! j) js,
              rows = map (\<lambda>(k, r). (k, map (cell_at r) js)) (rows f)\<rparr>)"

section \<open>The failure kinds of the specification\<close>

text \<open>
  The kinds of specification 7, read off an exception by its class and the place that
  raised it. No place of the source raises a hyperparameter error.
\<close>

datatype kind =
    AccessDenied
  | NotFound
  | SourceUnreachable
  | UnsupportedFormat
  | ParseError
  | NoNumericColumns
  | LabelColumnNotFound
  | InvalidHyperparameter
  | ReductionFailed

definition kind_of :: "exc \<Rightarrow> kind option" where
  "kind_of e =
     (case e of Raise c m \<Rightarrow>
        (case c of
           ValueError \<Rightarrow> (case m of Acces_non_autorise \<Rightarrow> Some AccessDenied | _ \<Rightarrow> None)
         | FileNotFoundError \<Rightarrow> Some NotFound
         | ParserError \<Rightarrow> Some ParseError
         | Exception \<Rightarrow>
             (case m of
                Une_erreur_est_survenue m' \<Rightarrow>
                  (case m' of
                     Erreur_de_telechargement u x \<Rightarrow> Some SourceUnreachable
                   | Format_distant_non_supporte t \<Rightarrow> Some UnsupportedFormat
                   | Format_local_non_supporte t \<Rightarrow> Some UnsupportedFormat
                   | _ \<Rightarrow> None)
              | _ \<Rightarrow> None)
         | HTTPException n \<Rightarrow>
             (case m of
                Erreur_de_preparation x \<Rightarrow> if n = 400 then Some NoNumericColumns else None
              | Colonne_de_couleur_introuvable x \<Rightarrow>
                  if n = 404 then Some LabelColumnNotFound else None
              | Erreur_execution nom x \<Rightarrow> if n = 500 then Some ReductionFailed else None
              | Echec_de_la_reduction \<Rightarrow> if n = 500 then Some ReductionFailed else None
              | _ \<Rightarrow> None)
         | _ \<Rightarrow> None))"

section \<open>Example environments\<close>

text \<open>
  A frame of four rows, one of them with a missing value, two numeric columns and a
  text column; and a frame with text only.
\<close>

definition frame_exemple :: frame where
  "frame_exemple =
     \<lparr>columns = [''x'', ''y'', ''groupe''],
      rows = [(0, [Num 1, Num 2, Txt ''a'']),
              (1, [Num 3, NA, Txt ''b'']),
              (2, [Num 5, Num 6, Txt ''a'']),
              (3, [Num 7, Num 8, Txt ''b''])]\<rparr>"

definition frame_texte :: frame where
  "frame_texte =
     \<lparr>columns = [''nom''], rows = [(0, [Txt ''a'']), (1, [Txt ''b''])]\<rparr>"

text \<open>
  Uploads parse to \<open>frame_exemple\<close>. The cleaning modules are the ones modelled from the
  specification. The reductions return one row of zeros for each row of their input;
  t-SNE refuses a perplexity that is not below the number of rows, as scikit-learn does
  since its version 1.2. The selector always answers \<open>acp\<close>.
\<close>

definition env_exemple :: env where
  "env_exemple =
     \<lparr>decode_utf8 = Some,
      decode_latin1 = (\<lambda>c. c),
      csv_sniff = (\<lambda>s. Inl (Raise (AutreErreur ''csv.Error'') (Lib ''delimiter''))),
      pd_read_csv = (\<lambda>t sep. Inr frame_exemple),
      pd_read_excel = (\<lambda>c. Inr frame_exemple)\<rparr>"

definition zeros :: "frame \<Rightarrow> nat \<Rightarrow> matrix" where
  "zeros f n = map (\<lambda>l. replicate n 0) (rows f)"

definition bibliotheques_exemple :: bibliotheques where
  "bibliotheques_exemple =
     \<lparr>gerer_les_valeurs_manquantes = netoyage_valeurs_manquantes,
      gerer_les_valeurs_duplicates = netoyage_valeurs_duplicates,
      num_col = numeric_data_num_col,
      acp_reduction = (\<lambda>f n. Inr (zeros f n)),
      selection_methode = (\<lambda>f n. Inr ''acp''),
      clean_dataframe_for_json = Inr,
      TSNE_fit_transform =
        (\<lambda>n p f. if int (length (rows f)) \<le> p
                   then Inl (Raise ValueError (Lib ''perplexity must be less than n_samples''))
                   else Inr (zeros f n)),
      UMAP_fit_transform = (\<lambda>n k d f. Inr (zeros f n)),
      plotly_to_html = (\<lambda>g t c axes. Inr t),
      uuid4 = ''0000''\<rparr>"

definition parametres_defaut :: ParametresVisualisation where
  "parametres_defaut =
     \<lparr>colonne_couleur = None, titre = ''Visualisation Interactive'', perplexite = 30,
      n_voisins = 15, dist_min = 0.1\<rparr>"

definition champs_vides :: champs_json where
  "champs_vides =
     \<lparr>champ_colonne_couleur = None, champ_titre = None, champ_perplexite = None,
      champ_n_voisins = None, champ_dist_min = None\<rparr>"

text \<open>
  A file system without symbolic links, the process running in \<open>/srv/app/Projet\<close> and
  the root of the project being \<open>/srv/app\<close>: a path is resolved by walking its
  components from the working directory. It holds a CSV file whose first line uses the
  semicolon and a JSON file that does not parse; the network is down.
\<close>

definition resolve_lexical :: "string list \<Rightarrow> string \<Rightarrow> string list" where
  "resolve_lexical cwd p =
     foldl (\<lambda>acc s. if s = ''..'' then butlast acc
                     else if s = [] \<or> s = ''.'' then acc else acc @ [s])
       (if startswith p ''/'' then [] else cwd) (split_sep CHR ''/'' p)"

definition systeme_exemple :: systeme where
  "systeme_exemple =
     \<lparr>PROJECT_ROOT = [''srv'', ''app''],
      resolve = resolve_lexical [''srv'', ''app'', ''Projet''],
      path_exists = (\<lambda>p. p = ''data/notes.csv'' \<or> p = ''data/mauvais.json''
                           \<or> p = ''data/archive.zip'' \<or> p = ''data/mots.csv''),
      readline = (\<lambda>p. if p = ''data/notes.csv'' then Inr ''nom;note,rang''
                        else if p = ''data/mots.csv'' then Inr ''mot''
                        else Inl (Raise FileNotFoundError (Lib p))),
      lire_fichier = (\<lambda>p. if p = ''data/mauvais.json'' then Inr ''{''
                            else Inl (Raise FileNotFoundError (Lib p))),
      read_csv = (\<lambda>p sep. Inr frame_exemple),
      read_excel = (\<lambda>p. Inr frame_exemple),
      read_parquet = (\<lambda>p. Inr frame_exemple),
      read_sql_query = (\<lambda>q d. Inr frame_exemple),
      image_rgb = (\<lambda>p. Inr [[[0, 0, 0]]]),
      requests_get = (\<lambda>u. Inl (Raise RequestException (Lib ''ConnectionError''))),
      json_loads = (\<lambda>t. if t = ''{''
                          then Inl (Raise (AutreErreur ''JSONDecodeError'')
                                      (Lib ''Expecting property name''))
                          else Inr (Donnees t)),
      yaml_safe_load = (\<lambda>t. Inr (Donnees t)),
      json_normalize = (\<lambda>d. Inr frame_exemple)\<rparr>"

text \<open>
  The same libraries with a t-SNE that accepts every perplexity, as scikit-learn did
  before its version 1.2; and a request for a colour column that the example frames do
  not have.
\<close>

definition bibliotheques_sans_controle :: bibliotheques where
  "bibliotheques_sans_controle =
     bibliotheques_exemple\<lparr>TSNE_fit_transform := (\<lambda>n p f. Inr (zeros f n))\<rparr>"

definition parametres_couleur :: ParametresVisualisation where
  "parametres_couleur = parametres_defaut\<lparr>colonne_couleur := Some ''couleur''\<rparr>"


text \<open>
  An upload that has a column named \<open>PC_1\<close>, and a request that takes it as the colour
  column.
\<close>

definition frame_pc :: frame where
  "frame_pc =
     \<lparr>columns = [''x'', ''y'', ''PC_1''],
      rows = [(0, [Num 1, Num 2, Txt ''a'']), (1, [Num 3, Num 4, Txt ''b''])]\<rparr>"

definition parametres_pc :: ParametresVisualisation where
  "parametres_pc = parametres_defaut\<lparr>colonne_couleur := Some ''PC_1''\<rparr>"

text \<open>The frame of the plot that this request gives on that upload.\<close>

definition graphique_pc :: frame where
  "graphique_pc =
     \<lparr>columns = [''PC_1'', ''PC_2'', ''hover_name''],
      rows = [(0, [Txt ''a'', Num 0, Txt ''0'']), (1, [Txt ''b'', Num 0, Txt ''1''])]\<rparr>"

section \<open>Reading the frame of the plot\<close>

text \<open>
  \<open>df[c]\<close> as a Series, each value with its row key; a frame is rectangular when every
  row has one cell per column, as every DataFrame is. \<open>lignes_de_cle f j k\<close> are the
  cells of column \<open>j\<close> in the rows that carry the key \<open>k\<close>, and \<open>valeurs_survol\<close> the
  values of the column \<open>hover_name\<close>.
\<close>

definition getitem :: "frame \<Rightarrow> string \<Rightarrow> exc + series" where
  "getitem f c =
     (case position c (columns f) of
        None \<Rightarrow> Inl (Raise KeyError (Lib c))
      | Some j \<Rightarrow> Inr (map (\<lambda>(k, r). (k, cell_at r j)) (rows f)))"

definition rectangulaire :: "frame \<Rightarrow> bool" where
  "rectangulaire f = (\<forall>l \<in> set (rows f). length (snd l) = length (columns f))"

definition lignes_de_cle :: "frame \<Rightarrow> nat \<Rightarrow> nat \<Rightarrow> series" where
  "lignes_de_cle f j k =
     map (\<lambda>(k', r). (k', cell_at r j)) (filter (\<lambda>(k', r). k' = k) (rows f))"

definition valeurs_survol :: "frame \<Rightarrow> cell list" where
  "valeurs_survol g = map (\<lambda>k. Txt (str_nat k)) (index g)"

text \<open>
  A request for the colour column \<open>groupe\<close> of the example frame, and the frame of the
  plot that the linear reduction gives for it in two dimensions.
\<close>

definition parametres_groupe :: ParametresVisualisation where
  "parametres_groupe = parametres_defaut\<lparr>colonne_couleur := Some ''groupe''\<rparr>"

definition graphique_exemple :: frame where
  "graphique_exemple =
     \<lparr>columns = [''PC_1'', ''PC_2'', ''hover_name'', ''groupe''],
      rows = [(0, [Num 0, Num 0, Txt ''0'', Txt ''a'']),
              (2, [Num 0, Num 0, Txt ''2'', Txt ''a'']),
              (3, [Num 0, Num 0, Txt ''3'', Txt ''b''])]\<rparr>"

section \<open>Facts about strings\<close>

lemma endswith_iff: "endswith s x = (\<exists>p. s = p @ x)"
proof
  assume "endswith s x"
  then have "s = take (length s - length x) s @ x"
    by (metis append_take_drop_id endswith_def)
  then show "\<exists>p. s = p @ x" ..
next
  assume "\<exists>p. s = p @ x"
  then show "endswith s x"
    by (auto simp: endswith_def)
qed

lemma endswith_last: "endswith s x \<Longrightarrow> x \<noteq> [] \<Longrightarrow> last s = last x"
  by (auto simp: endswith_iff)

lemma xls_pas_csv_ni_xlsx:
  assumes "endswith s ''.xls''"
  shows "\<not> endswith s ''.csv''" and "\<not> endswith s ''.xlsx''"
proof -
  have l: "last s = CHR ''s''"
    using endswith_last [OF assms] by simp
  show "\<not> endswith s ''.csv''"
  proof
    assume "endswith s ''.csv''"
    then have "last s = CHR ''v''"
      using endswith_last by fastforce
    with l show False by simp
  qed
  show "\<not> endswith s ''.xlsx''"
  proof
    assume "endswith s ''.xlsx''"
    then have "last s = CHR ''x''"
      using endswith_last by fastforce
    with l show False by simp
  qed
qed

section \<open>The upload helper rejects every extension but .csv and .xlsx\<close>

text \<open>
  C10. The upload helper of the API endpoints lets through only the file names that end
  in \<open>.csv\<close> or \<open>.xlsx\<close> (the comparison is case-sensitive). Any other file name, a
  name ending in \<open>.xls\<close> included, is rejected with HTTP 400, and no event has happened
  then: the content was neither read nor parsed. A name that passes has its content read
  first.
\<close>

theorem televersement_extension:
  "(\<not> (endswith (filename fichier) ''.csv'' \<or> endswith (filename fichier) ''.xlsx'') \<longrightarrow>
      obtenir_df_depuis_televersement env fichier =
        (Inl (Raise (HTTPException 400) Format_de_fichier_non_supporte), []))
   \<and> (endswith (filename fichier) ''.xls'' \<longrightarrow>
      obtenir_df_depuis_televersement env fichier =
        (Inl (Raise (HTTPException 400) Format_de_fichier_non_supporte), []))
   \<and> (endswith (filename fichier) ''.csv'' \<or> endswith (filename fichier) ''.xlsx'' \<longrightarrow>
      (\<exists>evs. snd (obtenir_df_depuis_televersement env fichier) =
         Lecture_televersement (filename fichier) # evs))"
proof (intro conjI impI)
  assume "\<not> (endswith (filename fichier) ''.csv'' \<or> endswith (filename fichier) ''.xlsx'')"
  then show "obtenir_df_depuis_televersement env fichier =
        (Inl (Raise (HTTPException 400) Format_de_fichier_non_supporte), [])"
    by (simp add: obtenir_df_depuis_televersement_def)
next
  assume xls: "endswith (filename fichier) ''.xls''"
  show "obtenir_df_depuis_televersement env fichier =
        (Inl (Raise (HTTPException 400) Format_de_fichier_non_supporte), [])"
    using xls_pas_csv_ni_xlsx [OF xls]
    by (simp add: obtenir_df_depuis_televersement_def)
next
  assume "endswith (filename fichier) ''.csv'' \<or> endswith (filename fichier) ''.xlsx''"
  then show "\<exists>evs. snd (obtenir_df_depuis_televersement env fichier) =
         Lecture_televersement (filename fichier) # evs"
    by (auto simp: obtenir_df_depuis_televersement_def split: prod.splits sum.splits)
qed

theorem televersement_extension_witness:
  "endswith ''donnees.xls'' ''.xls''
   \<and> \<not> (endswith ''donnees.xls'' ''.csv'' \<or> endswith ''donnees.xls'' ''.xlsx'')
   \<and> obtenir_df_depuis_televersement env_exemple
         \<lparr>filename = ''donnees.xls'', contenu = ''a,b''\<rparr> =
        (Inl (Raise (HTTPException 400) Format_de_fichier_non_supporte), [])
   \<and> endswith ''donnees.csv'' ''.csv''
   \<and> (\<exists>evs. snd (obtenir_df_depuis_televersement env_exemple
                      \<lparr>filename = ''donnees.csv'', contenu = ''a,b''\<rparr>) =
         Lecture_televersement ''donnees.csv'' # evs)"
  using televersement_extension [of "\<lparr>filename = ''donnees.xls'', contenu = ''a,b''\<rparr>" env_exemple]
        televersement_extension [of "\<lparr>filename = ''donnees.csv'', contenu = ''a,b''\<rparr>" env_exemple]
  by (simp add: endswith_def)

section \<open>Unfolding the examples and the orchestration\<close>

lemmas exemples =
  bibliotheques_exemple_def bibliotheques_sans_controle_def parametres_defaut_def
  parametres_couleur_def frame_exemple_def frame_texte_def env_exemple_def zeros_def
  champs_vides_def

lemmas orchestration =
  creer_graphique_interactif_def donnees_graphique_def preparation_def gerer_couleur_def
  couleur_demandee_def selectionner_def executer_reduction_def appeler_reduction_def
  tsne_reduction_def umap_reduction_def preparer_dataframe_def generer_graphique_def
  valeur_ou_defaut_def Let_def

lemmas modules_spec =
  netoyage_valeurs_manquantes_def supprimer_lignes_na_def ligne_complete_def
  numeric_data_num_col_def colonnes_numeriques_def valeurs_colonne_def cell_at_def
  est_nombre_def empty_frame_def

section \<open>t-SNE: the perplexity is passed on unchecked\<close>

text \<open>
  C4, as amended. Neither the orchestration nor \<open>tsne_reduction\<close> compares the
  perplexity with the number of rows: the perplexity of the request reaches
  scikit-learn's \<open>TSNE\<close> unchanged, the result of the library is the result of the step,
  and whatever exception the library raises, the one for a perplexity that is not below
  the number of rows included, comes back as HTTP 500 naming \<open>TSNE\<close> and the cause.
\<close>

theorem tsne_perplexite_transmise:
  "executer_reduction b ''tsne'' donnees_numeriques n parametres =
     (case TSNE_fit_transform b n (perplexite parametres) donnees_numeriques of
        Inl e \<Rightarrow> Inl (Raise (HTTPException 500) (Erreur_execution ''TSNE'' (str_exc e)))
      | Inr m \<Rightarrow> Inr (Some (m, noms_colonnes ''TSNE'' n)),
      [Appel_TSNE n (perplexite parametres)])
   \<and> tsne_reduction b donnees_numeriques (Some n) (Some q) =
       (TSNE_fit_transform b n q donnees_numeriques, [Appel_TSNE n q])"
  by (simp add: executer_reduction_def appeler_reduction_def tsne_reduction_def
      valeur_ou_defaut_def upper_def upper_char_def split: sum.splits)

text \<open>
  C4 as stated fails: with the default perplexity 30 on a frame of four rows, the
  library is called and its error comes back as the HTTP 500 of a failed reduction, not
  as a hyperparameter error; with a library that does not check, the same run succeeds.
\<close>

theorem tsne_perplexite_counterexample:
  "length (rows frame_exemple) = 4 \<and> perplexite parametres_defaut = 30
   \<and> creer_graphique_interactif bibliotheques_exemple frame_exemple ''tsne'' 2
        parametres_defaut =
       (Inl (Raise (HTTPException 500)
               (Erreur_execution ''TSNE'' (Lib ''perplexity must be less than n_samples''))),
        [Appel_TSNE 2 30])
   \<and> kind_of (Raise (HTTPException 500)
               (Erreur_execution ''TSNE'' (Lib ''perplexity must be less than n_samples''))) =
       Some ReductionFailed
   \<and> creer_graphique_interactif bibliotheques_sans_controle frame_exemple ''tsne'' 2
        parametres_defaut =
       (Inr (''Visualisation Interactive (TSNE 2D)'', ''tsne''),
        [Appel_TSNE 2 30, Appel_plotly ''Visualisation Interactive (TSNE 2D)''])"
  by (simp add: exemples orchestration modules_spec kind_of_def upper_def upper_char_def
       noms_colonnes_def DataFrame_def index_def setitem_def str_nat.simps chiffre_def)

theorem tsne_perplexite_transmise_witness:
  "executer_reduction bibliotheques_exemple ''tsne'' frame_exemple 2 parametres_defaut =
     (Inl (Raise (HTTPException 500)
             (Erreur_execution ''TSNE'' (Lib ''perplexity must be less than n_samples''))),
      [Appel_TSNE 2 30])
   \<and> tsne_reduction bibliotheques_exemple frame_exemple (Some 2) (Some 3) =
       (Inr (zeros frame_exemple 2), [Appel_TSNE 2 3])"
  using tsne_perplexite_transmise [of bibliotheques_exemple frame_exemple 2 parametres_defaut 3]
  by (simp add: bibliotheques_exemple_def parametres_defaut_def frame_exemple_def)

section \<open>UMAP: the neighbour count and the minimum distance\<close>



section \<open>The colour column is looked up in the raw frame\<close>




section \<open>The loader: what leaves the handlers\<close>

lemma gestion_des_erreurs_classes:
  assumes "gestion_des_erreurs r = Inl e"
  shows "classe e = FileNotFoundError \<or> classe e = ParserError
         \<or> (\<exists>m. e = Raise Exception (Une_erreur_est_survenue m))"
  using assms by (auto simp: gestion_des_erreurs_def split: sum.splits if_splits)

lemma load_dans_la_racine:
  assumes "est_url (corriger_chemin file_path)
           \<or> prefix (PROJECT_ROOT sys) (resolve sys (corriger_chemin file_path))"
  shows "load sys file_path sql_query db_path image_as_dataframe =
           (Inl (Raise ValueError (Champ_inconnu ''DataLoader'' ''format'')), [])"
  using assms by (auto simp: load_def setattr_DataLoader_def Let_def)

section \<open>The loader: containment in the project root\<close>

text \<open>
  C1. For a source that is not a URL, \<open>load\<close> resolves the path and tests that the root
  of the project is a prefix of it. A path that resolves outside the root fails with the
  \<open>ValueError\<close> of the refused access (the kind AccessDenied), whatever the file system
  holds and whatever the extension, and no event has happened: the test stands before
  the dispatch on the file type. A path inside the root never fails with that error.
\<close>

theorem acces_hors_racine:
  "(\<not> est_url (corriger_chemin file_path) \<longrightarrow>
    \<not> prefix (PROJECT_ROOT sys) (resolve sys (corriger_chemin file_path)) \<longrightarrow>
      load sys file_path sql_query db_path image_as_dataframe =
        (Inl (Raise ValueError Acces_non_autorise), []))
   \<and> (\<not> est_url (corriger_chemin file_path) \<longrightarrow>
      prefix (PROJECT_ROOT sys) (resolve sys (corriger_chemin file_path)) \<longrightarrow>
      fst (load sys file_path sql_query db_path image_as_dataframe) \<noteq>
        Inl (Raise ValueError Acces_non_autorise))
   \<and> kind_of (Raise ValueError Acces_non_autorise) = Some AccessDenied"
proof (intro conjI impI)
  assume "\<not> est_url (corriger_chemin file_path)"
    and "\<not> prefix (PROJECT_ROOT sys) (resolve sys (corriger_chemin file_path))"
  then show "load sys file_path sql_query db_path image_as_dataframe =
        (Inl (Raise ValueError Acces_non_autorise), [])"
    by (simp add: load_def)
next
  assume "\<not> est_url (corriger_chemin file_path)"
    and inside: "prefix (PROJECT_ROOT sys) (resolve sys (corriger_chemin file_path))"
  then have "load sys file_path sql_query db_path image_as_dataframe =
           (Inl (Raise ValueError (Champ_inconnu ''DataLoader'' ''format'')), [])"
    by (simp add: load_dans_la_racine)
  then show "fst (load sys file_path sql_query db_path image_as_dataframe) \<noteq>
        Inl (Raise ValueError Acces_non_autorise)"
    by simp
next
  show "kind_of (Raise ValueError Acces_non_autorise) = Some AccessDenied"
    by (simp add: kind_of_def)
qed

text \<open>Unfolding the path functions and the example file system.\<close>

lemmas chemins =
  corriger_chemin_def est_url_def startswith_def antislash_def type_fichier_def suffixe_def
  name_def parts_def rfind_def lower_def lower_char_def

lemmas systeme_exemple_simps =
  systeme_exemple_def resolve_lexical_def startswith_def

theorem acces_hors_racine_witness:
  "\<not> est_url (corriger_chemin ''../../etc/passwd'')
   \<and> resolve systeme_exemple (corriger_chemin ''../../etc/passwd'') = [''srv'', ''etc'', ''passwd'']
   \<and> \<not> prefix (PROJECT_ROOT systeme_exemple)
          (resolve systeme_exemple (corriger_chemin ''../../etc/passwd''))
   \<and> load systeme_exemple ''../../etc/passwd'' None None False =
        (Inl (Raise ValueError Acces_non_autorise), [])
   \<and> \<not> est_url (corriger_chemin ''data/notes.csv'')
   \<and> prefix (PROJECT_ROOT systeme_exemple)
        (resolve systeme_exemple (corriger_chemin ''data/notes.csv''))
   \<and> fst (load systeme_exemple ''data/notes.csv'' None None False) \<noteq>
        Inl (Raise ValueError Acces_non_autorise)"
proof -
  have a: "\<not> est_url (corriger_chemin ''../../etc/passwd'')"
    by (simp add: chemins)
  have r: "resolve systeme_exemple (corriger_chemin ''../../etc/passwd'') =
             [''srv'', ''etc'', ''passwd'']"
    by (simp add: systeme_exemple_simps corriger_chemin_def antislash_def)
  have b: "\<not> prefix (PROJECT_ROOT systeme_exemple)
          (resolve systeme_exemple (corriger_chemin ''../../etc/passwd''))"
    unfolding r by (simp add: systeme_exemple_def)
  have c: "\<not> est_url (corriger_chemin ''data/notes.csv'')"
    by (simp add: chemins)
  have d: "prefix (PROJECT_ROOT systeme_exemple)
        (resolve systeme_exemple (corriger_chemin ''data/notes.csv''))"
    by (simp add: systeme_exemple_simps corriger_chemin_def antislash_def)
  show ?thesis
    using a r b c d
      acces_hors_racine [of "''../../etc/passwd''" systeme_exemple None None False]
      acces_hors_racine [of "''data/notes.csv''" systeme_exemple None None False]
    by simp
qed

section \<open>The loader: three classes of exceptions\<close>

text \<open>
  C5, as amended. A failure inside the \<open>try\<close> statement of the loader leaves its
  handlers as one of three classes: a \<open>FileNotFoundError\<close> or a pandas \<open>ParserError\<close>, both
  passed on unchanged, or a plain \<open>Exception\<close> whose message is the loading message
  followed by the message of the cause. Every other exception is wrapped in that
  \<open>Exception\<close>: the unsupported format (local, or remote after the download), the failed
  download, and every error of a parser or of the file system; only the message tells
  them apart. A local file that does not exist gives the \<open>FileNotFoundError\<close> of the
  source.
\<close>

theorem load_erreurs:
  "(fst (essayer_charger sys p is_url t sql_query db_path image_as_dataframe) = Inl e \<longrightarrow>
      classe e = FileNotFoundError \<or> classe e = ParserError
      \<or> (\<exists>m. e = Raise Exception (Une_erreur_est_survenue m)))
   \<and> (\<forall>x. classe x \<noteq> FileNotFoundError \<longrightarrow> classe x \<noteq> ParserError \<longrightarrow>
          gestion_des_erreurs (Inl x) = Inl (Raise Exception (Une_erreur_est_survenue (str_exc x))))
   \<and> (\<forall>x. classe x = FileNotFoundError \<or> classe x = ParserError \<longrightarrow>
          gestion_des_erreurs (Inl x) = Inl x)
   \<and> (\<not> is_url \<longrightarrow> \<not> path_exists sys p \<longrightarrow>
        essayer_charger sys p is_url t sql_query db_path image_as_dataframe =
          (Inl (Raise FileNotFoundError (Fichier_introuvable p)),
           [Acces ''os.path.exists'' p]))
   \<and> (t \<notin> {''csv'', ''xls'', ''xlsx'', ''json'', ''yaml'', ''yml'', ''parquet'', ''sql'',
             ''png'', ''jpg'', ''jpeg'', ''txt''} \<longrightarrow>
        charger_local sys p t sql_query db_path image_as_dataframe =
          (Inl (Raise ValueError (Format_local_non_supporte t)), []))
   \<and> (t \<notin> {''csv'', ''xls'', ''xlsx''} \<longrightarrow> requests_get sys p = Inl x \<longrightarrow>
        classe x = RequestException \<longrightarrow>
        charger_distant sys p t =
          (Inl (Raise Exception (Erreur_de_telechargement p (str_exc x))),
           [Acces ''requests.get'' p]))
   \<and> (t \<notin> {''csv'', ''xls'', ''xlsx'', ''json'', ''yaml'', ''yml'', ''txt''} \<longrightarrow>
        requests_get sys p = Inr r \<longrightarrow>
        charger_distant sys p t =
          (Inl (Raise ValueError (Format_distant_non_supporte t)),
           [Acces ''requests.get'' p]))"
proof (intro conjI impI allI)
  assume "fst (essayer_charger sys p is_url t sql_query db_path image_as_dataframe) = Inl e"
  then have "gestion_des_erreurs
               (fst (charger sys p is_url t sql_query db_path image_as_dataframe)) = Inl e"
    by (simp add: essayer_charger_def split: prod.splits)
  from gestion_des_erreurs_classes [OF this]
  show "classe e = FileNotFoundError \<or> classe e = ParserError
      \<or> (\<exists>m. e = Raise Exception (Une_erreur_est_survenue m))" .
next
  fix x
  assume "classe x \<noteq> FileNotFoundError" and "classe x \<noteq> ParserError"
  then show "gestion_des_erreurs (Inl x) =
      Inl (Raise Exception (Une_erreur_est_survenue (str_exc x)))"
    by (simp add: gestion_des_erreurs_def)
next
  fix x
  assume "classe x = FileNotFoundError \<or> classe x = ParserError"
  then show "gestion_des_erreurs (Inl x) = Inl x"
    by (auto simp: gestion_des_erreurs_def)
next
  assume "\<not> is_url" and "\<not> path_exists sys p"
  then show "essayer_charger sys p is_url t sql_query db_path image_as_dataframe =
          (Inl (Raise FileNotFoundError (Fichier_introuvable p)),
           [Acces ''os.path.exists'' p])"
    by (simp add: essayer_charger_def charger_def gestion_des_erreurs_def)
next
  assume "t \<notin> {''csv'', ''xls'', ''xlsx'', ''json'', ''yaml'', ''yml'', ''parquet'', ''sql'',
             ''png'', ''jpg'', ''jpeg'', ''txt''}"
  then show "charger_local sys p t sql_query db_path image_as_dataframe =
          (Inl (Raise ValueError (Format_local_non_supporte t)), [])"
    by (simp add: charger_local_def)
next
  assume "t \<notin> {''csv'', ''xls'', ''xlsx''}" and "requests_get sys p = Inl x"
    and "classe x = RequestException"
  then show "charger_distant sys p t =
          (Inl (Raise Exception (Erreur_de_telechargement p (str_exc x))),
           [Acces ''requests.get'' p])"
    by (simp add: charger_distant_def)
next
  assume "t \<notin> {''csv'', ''xls'', ''xlsx'', ''json'', ''yaml'', ''yml'', ''txt''}"
    and "requests_get sys p = Inr r"
  then show "charger_distant sys p t =
          (Inl (Raise ValueError (Format_distant_non_supporte t)),
           [Acces ''requests.get'' p])"
    by (simp add: charger_distant_def)
qed

text \<open>Unfolding the loader.\<close>

lemmas chargement =
  essayer_charger_def charger_def charger_local_def charger_csv_def charger_distant_def
  gestion_des_erreurs_def puis_def en_table_def Let_def

text \<open>
  C5 as stated fails. For a local JSON file inside the root, \<open>load\<close> raises the
  \<open>ValueError\<close> of the assignment of line 84, which stands outside the \<open>try\<close> and is none
  of the four kinds. And the \<open>try\<close> statement itself, on a JSON file that does not parse,
  ends in the plain \<open>Exception\<close> of the catch-all, which is none of the four kinds
  either.
\<close>

theorem load_json_counterexample:
  "load systeme_exemple ''data/mauvais.json'' None None False =
     (Inl (Raise ValueError (Champ_inconnu ''DataLoader'' ''format'')), [])
   \<and> kind_of (Raise ValueError (Champ_inconnu ''DataLoader'' ''format'')) = None
   \<and> essayer_charger systeme_exemple ''data/mauvais.json'' False ''json'' None None False =
     (Inl (Raise Exception (Une_erreur_est_survenue (Lib ''Expecting property name''))),
      [Acces ''os.path.exists'' ''data/mauvais.json'', Acces ''open'' ''data/mauvais.json''])
   \<and> kind_of (Raise Exception (Une_erreur_est_survenue (Lib ''Expecting property name''))) =
       None"
  by (simp add: load_def setattr_DataLoader_def chargement chemins systeme_exemple_simps
      kind_of_def)

theorem load_erreurs_witness:
  "fst (essayer_charger systeme_exemple ''data/absent.csv'' False ''csv'' None None False) =
     Inl (Raise FileNotFoundError (Fichier_introuvable ''data/absent.csv''))
   \<and> classe (Raise FileNotFoundError (Fichier_introuvable ''data/absent.csv'')) =
       FileNotFoundError
   \<and> gestion_des_erreurs (Inl (Raise ValueError (Format_local_non_supporte ''zip''))) =
       Inl (Raise Exception (Une_erreur_est_survenue (Format_local_non_supporte ''zip'')))
   \<and> gestion_des_erreurs (Inl (Raise ParserError Erreur_de_parsing_CSV)) =
       Inl (Raise ParserError Erreur_de_parsing_CSV)
   \<and> essayer_charger systeme_exemple ''data/absent.csv'' False ''csv'' None None False =
       (Inl (Raise FileNotFoundError (Fichier_introuvable ''data/absent.csv'')),
        [Acces ''os.path.exists'' ''data/absent.csv''])
   \<and> charger_local systeme_exemple ''data/archive.zip'' ''zip'' None None False =
       (Inl (Raise ValueError (Format_local_non_supporte ''zip'')), [])
   \<and> charger_distant systeme_exemple ''https://exemple.org/a.json'' ''json'' =
       (Inl (Raise Exception (Erreur_de_telechargement ''https://exemple.org/a.json''
                               (Lib ''ConnectionError''))),
        [Acces ''requests.get'' ''https://exemple.org/a.json''])
   \<and> charger_distant (systeme_exemple\<lparr>requests_get := Inr\<rparr>) ''https://exemple.org/a.zip''
        ''zip'' =
       (Inl (Raise ValueError (Format_distant_non_supporte ''zip'')),
        [Acces ''requests.get'' ''https://exemple.org/a.zip''])"
proof -
  have l: "fst (essayer_charger systeme_exemple ''data/absent.csv'' False ''csv'' None None
                  False) =
     Inl (Raise FileNotFoundError (Fichier_introuvable ''data/absent.csv''))"
    by (simp add: chargement systeme_exemple_simps)
  have g: "requests_get systeme_exemple ''https://exemple.org/a.json'' =
             Inl (Raise RequestException (Lib ''ConnectionError''))"
    by (simp add: systeme_exemple_def)
  have e: "\<not> path_exists systeme_exemple ''data/absent.csv''"
    by (simp add: systeme_exemple_def)
  show ?thesis
    using l g e
      load_erreurs [of systeme_exemple "''data/absent.csv''" False "''csv''" None None False
        "Raise FileNotFoundError (Fichier_introuvable ''data/absent.csv'')"]
      load_erreurs [of systeme_exemple "''data/archive.zip''" False "''zip''" None None False
        "Raise FileNotFoundError (Fichier_introuvable ''data/absent.csv'')"]
      load_erreurs [of systeme_exemple "''https://exemple.org/a.json''" False "''json''" None
        None False "Raise FileNotFoundError (Fichier_introuvable ''data/absent.csv'')"
        "Raise RequestException (Lib ''ConnectionError'')"]
      load_erreurs [of "systeme_exemple\<lparr>requests_get := Inr\<rparr>"
        "''https://exemple.org/a.zip''" False "''zip''" None None False
        "Raise FileNotFoundError (Fichier_introuvable ''data/absent.csv'')" x
        "''https://exemple.org/a.zip''" for x]
    by (simp add: gestion_des_erreurs_def)
qed

section \<open>The loader: the separator of a local CSV file\<close>




section \<open>Cleaning: duplicates first, and dropping wins\<close>




section \<open>Facts about frames\<close>

lemma position_None: "(position c xs = None) = (c \<notin> set xs)"
  by (induction xs) auto

lemma position_Some: "position c xs = Some j \<Longrightarrow> j < length xs \<and> xs ! j = c"
  by (induction xs arbitrary: j) (auto split: if_splits)

lemma position_append_new: "c \<notin> set xs \<Longrightarrow> position c (xs @ [c]) = Some (length xs)"
  by (induction xs) auto

lemma noms_colonnes_2: "noms_colonnes P 2 = [P @ ''_1'', P @ ''_2'']"
  by (simp add: noms_colonnes_def upt_rec str_nat.simps chiffre_def numeral_2_eq_2)

lemma noms_colonnes_3: "noms_colonnes P 3 = [P @ ''_1'', P @ ''_2'', P @ ''_3'']"
  by (simp add: noms_colonnes_def upt_rec str_nat.simps chiffre_def numeral_3_eq_3)

lemma length_noms_colonnes: "length (noms_colonnes P n) = n"
  by (simp add: noms_colonnes_def)

lemma hd_noms_colonnes: "x \<in> set (noms_colonnes P n) \<Longrightarrow> P \<noteq> [] \<Longrightarrow> hd x = hd P"
  by (auto simp: noms_colonnes_def)

lemma DataFrame_Inr:
  assumes "DataFrame m noms idx = Inr g"
  shows "columns g = noms" and "index g = idx" and "rectangulaire g"
    and "length (rows g) = length idx"
  using assms
  by (auto simp: DataFrame_def index_def rectangulaire_def split: if_splits
      dest!: set_zip_rightD)

lemma cles_lignes_modifiees:
  "length ls = length vs \<Longrightarrow>
     map fst (map (\<lambda>((k, r), v). (k, h r v)) (zip ls vs)) = map fst ls"
  by (induction ls vs rule: list_induct2) auto

lemma cellules_ajoutees:
  "length ls = length vs \<Longrightarrow> \<forall>l \<in> set ls. length (snd l) = n \<Longrightarrow>
     map (\<lambda>(k, r). (k, cell_at r n)) (map (\<lambda>((k, r), v). (k, r @ [v])) (zip ls vs)) =
       zip (map fst ls) vs"
  by (induction ls vs rule: list_induct2) (auto simp: cell_at_def)

lemma cellules_remplacees:
  "length ls = length vs \<Longrightarrow> \<forall>l \<in> set ls. length (snd l) = n \<Longrightarrow> j < n \<Longrightarrow>
     map (\<lambda>(k, r). (k, cell_at r j)) (map (\<lambda>((k, r), v). (k, r[j := v])) (zip ls vs)) =
       zip (map fst ls) vs"
  by (induction ls vs rule: list_induct2) (auto simp: cell_at_def)

lemma index_setitem:
  "length vs = length (rows f) \<Longrightarrow> index (setitem f c vs) = index f"
  by (simp add: setitem_def index_def cles_lignes_modifiees del: map_map
      split: option.splits)

lemma columns_setitem:
  "columns (setitem f c vs) = (if c \<in> set (columns f) then columns f else columns f @ [c])"
proof (cases "position c (columns f)")
  case None
  then have "c \<notin> set (columns f)"
    using position_None [of c "columns f"] by blast
  with None show ?thesis
    by (simp add: setitem_def)
next
  case (Some j)
  then have "c \<in> set (columns f)"
    using position_None [of c "columns f"] by auto
  with Some show ?thesis
    by (simp add: setitem_def)
qed

lemma rectangulaire_setitem:
  "rectangulaire f \<Longrightarrow> rectangulaire (setitem f c vs)"
  by (auto simp: setitem_def rectangulaire_def split: option.splits dest!: set_zip_leftD)

lemma lignes_etendues:
  assumes "rectangulaire f" and "length vs = length (rows f)"
  shows "map (\<lambda>(k, r). (k, cell_at r (length (columns f))))
          (map (\<lambda>((k, r), v). (k, r @ [v])) (zip (rows f) vs)) = zip (map fst (rows f)) vs"
proof (rule cellules_ajoutees)
  show "length (rows f) = length vs"
    using assms(2) by simp
  show "\<forall>l\<in>set (rows f). length (snd l) = length (columns f)"
    using assms(1) unfolding rectangulaire_def .
qed

lemma lignes_modifiees:
  assumes "rectangulaire f" and "length vs = length (rows f)" and "j < length (columns f)"
  shows "map (\<lambda>(k, r). (k, cell_at r j))
          (map (\<lambda>((k, r), v). (k, r[j := v])) (zip (rows f) vs)) = zip (map fst (rows f)) vs"
proof (rule cellules_remplacees)
  show "length (rows f) = length vs"
    using assms(2) by simp
  show "\<forall>l\<in>set (rows f). length (snd l) = length (columns f)"
    using assms(1) unfolding rectangulaire_def .
  show "j < length (columns f)"
    by (rule assms(3))
qed

lemma setitem_nouvelle_colonne:
  assumes "position c (columns f) = None"
  shows "setitem f c vs = \<lparr>columns = columns f @ [c],
                 rows = map (\<lambda>((k, r), v). (k, r @ [v])) (zip (rows f) vs)\<rparr>"
  using assms by (simp add: setitem_def)

lemma setitem_colonne_existante:
  assumes "position c (columns f) = Some j"
  shows "setitem f c vs = \<lparr>columns = columns f,
                   rows = map (\<lambda>((k, r), v). (k, r[j := v])) (zip (rows f) vs)\<rparr>"
  using assms by (simp add: setitem_def)

lemma getitem_setitem:
  assumes "rectangulaire f" and "length vs = length (rows f)"
  shows "getitem (setitem f c vs) c = Inr (zip (index f) vs)"
proof (cases "position c (columns f)")
  case None
  then have n: "c \<notin> set (columns f)"
    using position_None [of c "columns f"] by blast
  have p: "position c (columns f @ [c]) = Some (length (columns f))"
    using n by (rule position_append_new)
  have "getitem (setitem f c vs) c =
      Inr (map (\<lambda>(k, r). (k, cell_at r (length (columns f))))
          (map (\<lambda>((k, r), v). (k, r @ [v])) (zip (rows f) vs)))"
    by (simp only: setitem_nouvelle_colonne [OF None] getitem_def frame.simps p option.case)
  then show ?thesis
    by (simp only: lignes_etendues [OF assms] index_def)
next
  case (Some j)
  have j: "j < length (columns f)"
    using position_Some [OF Some] by simp
  have "getitem (setitem f c vs) c =
      Inr (map (\<lambda>(k, r). (k, cell_at r j))
          (map (\<lambda>((k, r), v). (k, r[j := v])) (zip (rows f) vs)))"
    by (simp only: setitem_colonne_existante [OF Some] getitem_def frame.simps Some option.case)
  then show ?thesis
    by (simp only: lignes_modifiees [OF assms j] index_def)
qed

section \<open>Facts about the selection of rows by key\<close>

lemma tous_egaux_distincts:
  "\<forall>x \<in> set xs. x = k \<Longrightarrow> distinct xs \<Longrightarrow> xs \<noteq> [] \<Longrightarrow> xs = [k]"
proof (cases xs)
  case Nil
  assume "xs \<noteq> []"
  with Nil show ?thesis by simp
next
  case (Cons y ys)
  assume a: "\<forall>x \<in> set xs. x = k" and d: "distinct xs"
  from a Cons have y: "y = k" by simp
  have "ys = []"
  proof (cases ys)
    case Nil
    then show ?thesis .
  next
    case (Cons z zs)
    with a \<open>xs = y # ys\<close> have "z = k" by simp
    with d y \<open>xs = y # ys\<close> Cons show ?thesis by simp
  qed
  with y Cons show ?thesis by simp
qed

lemma lignes_de_cle_fun:
  "(\<lambda>k. map (\<lambda>(k', r). (k', cell_at r j)) (filter (\<lambda>(k', r). k' = k) (rows f))) =
     lignes_de_cle f j"
  by (rule ext) (simp add: lignes_de_cle_def)

lemma cles_lignes_de_cle: "\<forall>x \<in> set (map fst (lignes_de_cle f j k)). x = k"
  by (auto simp: lignes_de_cle_def)

lemma lignes_de_cle_non_vide: "k \<in> set (index f) \<Longrightarrow> lignes_de_cle f j k \<noteq> []"
  by (auto simp: lignes_de_cle_def index_def filter_empty_conv)

lemma cles_concat_lignes:
  "\<forall>k \<in> set cles. k \<in> set (index f) \<Longrightarrow>
   distinct (map fst (concat (map (lignes_de_cle f j) cles))) \<Longrightarrow>
   map fst (concat (map (lignes_de_cle f j) cles)) = cles"
proof (induction cles)
  case Nil
  then show ?case by simp
next
  case (Cons k ks)
  from Cons.prems(2) have d1: "distinct (map fst (lignes_de_cle f j k))"
    and d2: "distinct (map fst (concat (map (lignes_de_cle f j) ks)))"
    by simp_all
  have "map fst (lignes_de_cle f j k) \<noteq> []"
    using Cons.prems(1) lignes_de_cle_non_vide [of k f j] by simp
  with d1 have "map fst (lignes_de_cle f j k) = [k]"
    using tous_egaux_distincts [OF cles_lignes_de_cle] by blast
  moreover have "map fst (concat (map (lignes_de_cle f j) ks)) = ks"
    using Cons.IH Cons.prems(1) d2 by simp
  ultimately show ?case by simp
qed

lemma loc_cles:
  assumes "loc f cles c = Inr s" and "distinct (map fst s)"
  shows "map fst s = cles"
proof -
  from assms(1) obtain j where j: "position c (columns f) = Some j"
    by (auto simp: loc_def split: option.splits)
  from assms(1) j have k: "\<forall>k \<in> set cles. k \<in> set (index f)"
    by (auto simp: loc_def split: if_splits)
  from assms(1) j k have s: "s = concat (map (lignes_de_cle f j) cles)"
    by (auto simp: loc_def lignes_de_cle_fun)
  show ?thesis
    using cles_concat_lignes [OF k] assms(2) unfolding s by blast
qed

lemma setitem_series_Inr:
  assumes "setitem_series f c s = Inr f'"
  shows "index f' = index f"
    and "columns f' = (if c \<in> set (columns f) then columns f else columns f @ [c])"
proof -
  obtain vs where f': "f' = setitem f c vs" and l: "length vs = length (rows f)"
  proof (cases "map fst s = index f")
    case True
    then have "length (map snd s) = length (rows f)"
      by (metis index_def length_map)
    moreover have "f' = setitem f c (map snd s)"
      using assms True by (simp add: setitem_series_def)
    ultimately show ?thesis
      using that by blast
  next
    case False
    then have "f' = setitem f c
                  (map (\<lambda>k. case map_of s k of Some v \<Rightarrow> v | None \<Rightarrow> NA) (index f))"
      using assms by (simp add: setitem_series_def split: if_splits)
    moreover have "length (map (\<lambda>k. case map_of s k of Some v \<Rightarrow> v | None \<Rightarrow> NA) (index f)) =
        length (rows f)"
      by (simp add: index_def)
    ultimately show ?thesis
      using that by blast
  qed
  show "index f' = index f"
    unfolding f' using l by (rule index_setitem)
  show "columns f' = (if c \<in> set (columns f) then columns f else columns f @ [c])"
    unfolding f' by (rule columns_setitem)
qed

section \<open>What a successful orchestration has done\<close>

lemma preparer_dataframe_Inr:
  assumes "preparer_dataframe r num p couleur = Inr (g, noms)"
  shows "\<exists>m g0. r = Some (m, noms) \<and> DataFrame m noms (index num) = Inr g0
           \<and> (case couleur of
                 None \<Rightarrow> g = setitem g0 ''hover_name'' (valeurs_survol g0)
               | Some s \<Rightarrow>
                   setitem_series (setitem g0 ''hover_name'' (valeurs_survol g0))
                     (valeur_ou_defaut (colonne_couleur p) []) s = Inr g)"
  using assms
  by (auto simp: preparer_dataframe_def valeurs_survol_def Let_def
      split: option.splits sum.splits prod.splits)

lemma preparation_Inr:
  assumes "preparation b brutes = Inr (propres, num)"
  shows "gerer_les_valeurs_manquantes b brutes ''drop'' = Inr propres"
    and "num_col b propres = Inr num" and "\<not> empty_frame num"
  using assms by (auto simp: preparation_def split: sum.splits if_splits)

lemma gerer_couleur_Inr:
  assumes "gerer_couleur p brutes propres num = Inr couleur"
  shows "case couleur_demandee p of
           None \<Rightarrow> couleur = None
         | Some c \<Rightarrow> c \<in> set (columns brutes) \<and> colonne_couleur p = Some c
                     \<and> (\<exists>s. couleur = Some s \<and> loc propres (index num) c = Inr s)"
  using assms
  by (auto simp: gerer_couleur_def couleur_demandee_def split: option.splits sum.splits if_splits)

lemma executer_reduction_Inr:
  assumes "executer_reduction b nom num n p = (Inr (Some (m, noms)), evs)"
  shows "(nom = ''acp'' \<and> noms = noms_colonnes ''PC'' n)
         \<or> (nom = ''tsne'' \<and> noms = noms_colonnes ''TSNE'' n)
         \<or> (nom = ''umap'' \<and> noms = noms_colonnes ''UMAP'' n)"
  using assms
  by (auto simp: executer_reduction_def appeler_reduction_def
      split: sum.splits prod.splits if_splits)

lemma donnees_graphique_Inr:
  assumes "donnees_graphique b brutes methode n p = (Inr (g, noms, nom), evs)"
  shows "\<exists>propres num couleur r evs1 evs2.
           preparation b brutes = Inr (propres, num)
           \<and> gerer_couleur p brutes propres num = Inr couleur
           \<and> selectionner b methode num n = (Inr nom, evs1)
           \<and> executer_reduction b nom num n p = (Inr r, evs2)
           \<and> preparer_dataframe r num p couleur = Inr (g, noms)"
  using assms
  by (auto simp: donnees_graphique_def split: sum.splits prod.splits)

lemma survol_pas_coordonnee:
  assumes "noms = noms_colonnes ''PC'' n \<or> noms = noms_colonnes ''TSNE'' n
           \<or> noms = noms_colonnes ''UMAP'' n"
  shows "''hover_name'' \<notin> set noms"
proof
  assume h: "''hover_name'' \<in> set noms"
  from assms h have "hd ''hover_name'' = hd ''PC'' \<or> hd ''hover_name'' = hd ''TSNE''
      \<or> hd ''hover_name'' = hd ''UMAP''"
    using hd_noms_colonnes [of "''hover_name''" _ n] by fastforce
  then show False by simp
qed

lemma graphique_de_base:
  assumes "DataFrame m noms idx = Inr g0"
  shows "index (setitem g0 ''hover_name'' (valeurs_survol g0)) = idx"
    and "rectangulaire (setitem g0 ''hover_name'' (valeurs_survol g0))"
    and "columns (setitem g0 ''hover_name'' (valeurs_survol g0)) =
           (if ''hover_name'' \<in> set noms then noms else noms @ [''hover_name''])"
proof -
  have l: "length (valeurs_survol g0) = length (rows g0)"
    by (simp add: valeurs_survol_def index_def)
  show "index (setitem g0 ''hover_name'' (valeurs_survol g0)) = idx"
    using index_setitem [OF l] DataFrame_Inr(2) [OF assms] by simp
  show "rectangulaire (setitem g0 ''hover_name'' (valeurs_survol g0))"
    using DataFrame_Inr(3) [OF assms] by (rule rectangulaire_setitem)
  show "columns (setitem g0 ''hover_name'' (valeurs_survol g0)) =
           (if ''hover_name'' \<in> set noms then noms else noms @ [''hover_name''])"
    using DataFrame_Inr(1) [OF assms] by (simp add: columns_setitem)
qed

section \<open>The frame of the plot\<close>

lemma cles_du_graphique:
  assumes "donnees_graphique b donnees_brutes methode n parametres = (Inr (g, noms, nom), evs)"
  shows "\<exists>donnees_propres donnees_numeriques.
           gerer_les_valeurs_manquantes b donnees_brutes ''drop'' = Inr donnees_propres
           \<and> num_col b donnees_propres = Inr donnees_numeriques
           \<and> index g = index donnees_numeriques
           \<and> length (rows g) = length (rows donnees_numeriques)
           \<and> (\<forall>c. couleur_demandee parametres = Some c \<longrightarrow>
                (\<exists>s. loc donnees_propres (index donnees_numeriques) c = Inr s
                     \<and> map fst s = index donnees_numeriques
                     \<and> getitem g c = Inr s))"
proof -
  from donnees_graphique_Inr [OF assms] obtain propres num couleur r evs1 evs2 where
    prep: "preparation b donnees_brutes = Inr (propres, num)"
    and coul: "gerer_couleur parametres donnees_brutes propres num = Inr couleur"
    and df: "preparer_dataframe r num parametres couleur = Inr (g, noms)"
    by blast
  from preparer_dataframe_Inr [OF df] obtain m g0 where
    g0: "DataFrame m noms (index num) = Inr g0"
    and fin: "case couleur of
                 None \<Rightarrow> g = setitem g0 ''hover_name'' (valeurs_survol g0)
               | Some s \<Rightarrow>
                   setitem_series (setitem g0 ''hover_name'' (valeurs_survol g0))
                     (valeur_ou_defaut (colonne_couleur parametres) []) s = Inr g"
    by blast
  define g1 where "g1 = setitem g0 ''hover_name'' (valeurs_survol g0)"
  have i1: "index g1 = index num" and r1: "rectangulaire g1"
    unfolding g1_def using graphique_de_base [OF g0] by simp_all
  have ig: "index g = index num"
  proof (cases couleur)
    case None
    with fin i1 show ?thesis by (simp add: g1_def)
  next
    case (Some s)
    with fin have "setitem_series g1 (valeur_ou_defaut (colonne_couleur parametres) []) s = Inr g"
      by (simp add: g1_def)
    from setitem_series_Inr(1) [OF this] i1 show ?thesis by simp
  qed
  have lg: "length (rows g) = length (rows num)"
    using ig by (metis index_def length_map)
  have lab: "\<exists>s. loc propres (index num) c = Inr s \<and> map fst s = index num \<and> getitem g c = Inr s"
    if c: "couleur_demandee parametres = Some c" for c
  proof -
    from gerer_couleur_Inr [OF coul] c obtain s where
      cc: "colonne_couleur parametres = Some c" and s: "couleur = Some s"
      and l: "loc propres (index num) c = Inr s"
      by auto
    from fin s cc have ss: "setitem_series g1 c s = Inr g"
      by (simp add: g1_def valeur_ou_defaut_def)
    have k: "map fst s = index num"
    proof (cases "map fst s = index g1")
      case True
      with i1 show ?thesis by simp
    next
      case False
      with ss have "distinct (map fst s)"
        by (auto simp: setitem_series_def split: if_splits)
      from loc_cles [OF l this] show ?thesis .
    qed
    then have "map fst s = index g1"
      using i1 by simp
    with ss have g: "g = setitem g1 c (map snd s)"
      by (simp add: setitem_series_def)
    have "length (map snd s) = length (rows g1)"
      using \<open>map fst s = index g1\<close> by (metis index_def length_map)
    from getitem_setitem [OF r1 this, of c] have "getitem g c = Inr (zip (index g1) (map snd s))"
      by (simp add: g)
    also have "zip (index g1) (map snd s) = s"
      using \<open>map fst s = index g1\<close> by (metis zip_map_fst_snd)
    finally show ?thesis
      using l k by blast
  qed
  from preparation_Inr(1,2) [OF prep] ig lg lab show ?thesis
    by blast
qed

lemma colonnes_du_graphique:
  assumes "donnees_graphique b donnees_brutes methode n parametres = (Inr (g, noms, nom), evs)"
    and "n = 2 \<or> n = 3"
  shows "\<exists>P. ((nom = ''acp'' \<and> P = ''PC'') \<or> (nom = ''tsne'' \<and> P = ''TSNE'')
              \<or> (nom = ''umap'' \<and> P = ''UMAP''))
           \<and> noms = (if n = 2 then [P @ ''_1'', P @ ''_2'']
                      else [P @ ''_1'', P @ ''_2'', P @ ''_3''])
           \<and> length noms = n
           \<and> columns g =
               noms @ ''hover_name'' #
                 (case couleur_demandee parametres of
                    None \<Rightarrow> []
                  | Some c \<Rightarrow> if c \<in> set noms \<or> c = ''hover_name'' then [] else [c])"
proof -
  from donnees_graphique_Inr [OF assms(1)] obtain propres num couleur r evs1 evs2 where
    coul: "gerer_couleur parametres donnees_brutes propres num = Inr couleur"
    and ex: "executer_reduction b nom num n parametres = (Inr r, evs2)"
    and df: "preparer_dataframe r num parametres couleur = Inr (g, noms)"
    by blast
  from preparer_dataframe_Inr [OF df] obtain m g0 where
    r: "r = Some (m, noms)"
    and g0: "DataFrame m noms (index num) = Inr g0"
    and fin: "case couleur of
                 None \<Rightarrow> g = setitem g0 ''hover_name'' (valeurs_survol g0)
               | Some s \<Rightarrow>
                   setitem_series (setitem g0 ''hover_name'' (valeurs_survol g0))
                     (valeur_ou_defaut (colonne_couleur parametres) []) s = Inr g"
    by blast
  from executer_reduction_Inr [OF ex [unfolded r]] obtain P where
    P: "(nom = ''acp'' \<and> P = ''PC'') \<or> (nom = ''tsne'' \<and> P = ''TSNE'')
          \<or> (nom = ''umap'' \<and> P = ''UMAP'')"
    and noms: "noms = noms_colonnes P n"
    by blast
  have h: "''hover_name'' \<notin> set noms"
    using survol_pas_coordonnee [of noms n] P noms by blast
  define g1 where "g1 = setitem g0 ''hover_name'' (valeurs_survol g0)"
  have c1: "columns g1 = noms @ [''hover_name'']"
    unfolding g1_def using graphique_de_base(3) [OF g0] h by simp
  have cg: "columns g =
               noms @ ''hover_name'' #
                 (case couleur_demandee parametres of
                    None \<Rightarrow> []
                  | Some c \<Rightarrow> if c \<in> set noms \<or> c = ''hover_name'' then [] else [c])"
  proof (cases "couleur_demandee parametres")
    case None
    with gerer_couleur_Inr [OF coul] have "couleur = None"
      by simp
    with fin c1 None show ?thesis
      by (simp add: g1_def)
  next
    case (Some c)
    with gerer_couleur_Inr [OF coul] obtain s where
      cc: "colonne_couleur parametres = Some c" and s: "couleur = Some s"
      by auto
    from fin s cc have "setitem_series g1 c s = Inr g"
      by (simp add: g1_def valeur_ou_defaut_def)
    from setitem_series_Inr(2) [OF this] c1 Some show ?thesis
      by auto
  qed
  have e: "noms = (if n = 2 then [P @ ''_1'', P @ ''_2'']
                      else [P @ ''_1'', P @ ''_2'', P @ ''_3''])"
    using assms(2) noms by (auto simp: noms_colonnes_2 noms_colonnes_3)
  have "length noms = n"
    using noms by (simp add: length_noms_colonnes)
  with P e cg show ?thesis
    by blast
qed

text \<open>The example, computed.\<close>

lemma replicate_2: "replicate 2 x = [x, x]"
  by (simp add: numeral_2_eq_2)

lemma donnees_graphique_exemple:
  "donnees_graphique bibliotheques_exemple frame_exemple ''acp'' 2 parametres_groupe =
     (Inr (graphique_exemple, [''PC_1'', ''PC_2''], ''acp''), [Appel_ACP 2])"
  by (simp add: exemples orchestration modules_spec parametres_groupe_def
      graphique_exemple_def noms_colonnes_2 DataFrame_def index_def setitem_def
      setitem_series_def loc_def str_nat.simps chiffre_def replicate_2)

section \<open>The orchestration, from the raw frame to the plot\<close>

lemma creer_graphique_interactif_Inr:
  assumes "creer_graphique_interactif b donnees_brutes methode n parametres =
             (Inr (html, nom), evs)"
  shows "\<exists>g noms evs1 evs2.
           donnees_graphique b donnees_brutes methode n parametres = (Inr (g, noms, nom), evs1)
           \<and> generer_graphique b g noms nom n parametres = (Inr html, evs2)"
  using assms
  by (auto simp: creer_graphique_interactif_def split: prod.splits sum.splits)

lemma creer_graphique_exemple:
  "creer_graphique_interactif bibliotheques_exemple frame_exemple ''acp'' 2 parametres_groupe =
     (Inr (''Visualisation Interactive (ACP 2D)'', ''acp''),
      [Appel_ACP 2, Appel_plotly ''Visualisation Interactive (ACP 2D)''])"
proof -
  have g: "generer_graphique bibliotheques_exemple graphique_exemple [''PC_1'', ''PC_2'']
             ''acp'' 2 parametres_groupe =
           (Inr ''Visualisation Interactive (ACP 2D)'',
            [Appel_plotly ''Visualisation Interactive (ACP 2D)''])"
    by (simp add: generer_graphique_def bibliotheques_exemple_def parametres_groupe_def
        parametres_defaut_def upper_def upper_char_def str_nat.simps chiffre_def Let_def)
  show ?thesis
    unfolding creer_graphique_interactif_def donnees_graphique_exemple
    by (simp add: g)
qed

section \<open>The result is keyed like the numeric frame\<close>

text \<open>
  C2. When the orchestration succeeds, the frame it hands to plotly carries the row keys
  of the numeric frame, the one extracted from the cleaned data, in the same order: it
  has as many rows as the numeric frame, whatever the raw frame had. When a colour
  column is asked for, the Series taken from the cleaned frame has exactly the row keys
  of the numeric frame, and the colour column of the result is that Series, key for key.
\<close>

theorem reduction_cles_des_lignes:
  assumes "creer_graphique_interactif b donnees_brutes methode n parametres =
             (Inr (html, nom), evs)"
  shows "\<exists>g noms evs1 evs2 donnees_propres donnees_numeriques.
           donnees_graphique b donnees_brutes methode n parametres = (Inr (g, noms, nom), evs1)
           \<and> generer_graphique b g noms nom n parametres = (Inr html, evs2)
           \<and> gerer_les_valeurs_manquantes b donnees_brutes ''drop'' = Inr donnees_propres
           \<and> num_col b donnees_propres = Inr donnees_numeriques
           \<and> index g = index donnees_numeriques
           \<and> length (rows g) = length (rows donnees_numeriques)
           \<and> (\<forall>c. couleur_demandee parametres = Some c \<longrightarrow>
                (\<exists>s. loc donnees_propres (index donnees_numeriques) c = Inr s
                     \<and> map fst s = index donnees_numeriques
                     \<and> getitem g c = Inr s))"
proof -
  from creer_graphique_interactif_Inr [OF assms] obtain g noms evs1 evs2 where
    d: "donnees_graphique b donnees_brutes methode n parametres = (Inr (g, noms, nom), evs1)"
    and p: "generer_graphique b g noms nom n parametres = (Inr html, evs2)"
    by blast
  from cles_du_graphique [OF d] d p show ?thesis
    by blast
qed

theorem reduction_cles_des_lignes_witness:
  "creer_graphique_interactif bibliotheques_exemple frame_exemple ''acp'' 2 parametres_groupe =
     (Inr (''Visualisation Interactive (ACP 2D)'', ''acp''),
      [Appel_ACP 2, Appel_plotly ''Visualisation Interactive (ACP 2D)''])
   \<and> (\<exists>g noms evs1 evs2 donnees_propres donnees_numeriques.
           donnees_graphique bibliotheques_exemple frame_exemple ''acp'' 2 parametres_groupe =
             (Inr (g, noms, ''acp''), evs1)
           \<and> generer_graphique bibliotheques_exemple g noms ''acp'' 2 parametres_groupe =
               (Inr ''Visualisation Interactive (ACP 2D)'', evs2)
           \<and> gerer_les_valeurs_manquantes bibliotheques_exemple frame_exemple ''drop'' =
               Inr donnees_propres
           \<and> num_col bibliotheques_exemple donnees_propres = Inr donnees_numeriques
           \<and> index g = index donnees_numeriques
           \<and> length (rows g) = length (rows donnees_numeriques)
           \<and> (\<forall>c. couleur_demandee parametres_groupe = Some c \<longrightarrow>
                (\<exists>s. loc donnees_propres (index donnees_numeriques) c = Inr s
                     \<and> map fst s = index donnees_numeriques
                     \<and> getitem g c = Inr s)))
   \<and> donnees_graphique bibliotheques_exemple frame_exemple ''acp'' 2 parametres_groupe =
       (Inr (graphique_exemple, [''PC_1'', ''PC_2''], ''acp''), [Appel_ACP 2])
   \<and> index graphique_exemple = [0, 2, 3]
   \<and> length (rows frame_exemple) = 4
   \<and> getitem graphique_exemple ''groupe'' = Inr [(0, Txt ''a''), (2, Txt ''a''), (3, Txt ''b'')]"
proof (intro conjI)
  show "creer_graphique_interactif bibliotheques_exemple frame_exemple ''acp'' 2
          parametres_groupe =
     (Inr (''Visualisation Interactive (ACP 2D)'', ''acp''),
      [Appel_ACP 2, Appel_plotly ''Visualisation Interactive (ACP 2D)''])"
    by (rule creer_graphique_exemple)
  show "\<exists>g noms evs1 evs2 donnees_propres donnees_numeriques.
           donnees_graphique bibliotheques_exemple frame_exemple ''acp'' 2 parametres_groupe =
             (Inr (g, noms, ''acp''), evs1)
           \<and> generer_graphique bibliotheques_exemple g noms ''acp'' 2 parametres_groupe =
               (Inr ''Visualisation Interactive (ACP 2D)'', evs2)
           \<and> gerer_les_valeurs_manquantes bibliotheques_exemple frame_exemple ''drop'' =
               Inr donnees_propres
           \<and> num_col bibliotheques_exemple donnees_propres = Inr donnees_numeriques
           \<and> index g = index donnees_numeriques
           \<and> length (rows g) = length (rows donnees_numeriques)
           \<and> (\<forall>c. couleur_demandee parametres_groupe = Some c \<longrightarrow>
                (\<exists>s. loc donnees_propres (index donnees_numeriques) c = Inr s
                     \<and> map fst s = index donnees_numeriques
                     \<and> getitem g c = Inr s))"
    by (rule reduction_cles_des_lignes [OF creer_graphique_exemple])
  show "donnees_graphique bibliotheques_exemple frame_exemple ''acp'' 2 parametres_groupe =
       (Inr (graphique_exemple, [''PC_1'', ''PC_2''], ''acp''), [Appel_ACP 2])"
    by (rule donnees_graphique_exemple)
  show "index graphique_exemple = [0, 2, 3]"
    by (simp add: graphique_exemple_def index_def)
  show "length (rows frame_exemple) = 4"
    by (simp add: frame_exemple_def)
  show "getitem graphique_exemple ''groupe'' =
      Inr [(0, Txt ''a''), (2, Txt ''a''), (3, Txt ''b'')]"
    by (simp add: graphique_exemple_def getitem_def cell_at_def)
qed

section \<open>Facts about the cells of the plot\<close>

lemma position_distinct:
  "distinct xs \<Longrightarrow> j < length xs \<Longrightarrow> position (xs ! j) xs = Some j"
proof (induction xs arbitrary: j)
  case Nil
  then show ?case by simp
next
  case (Cons x xs)
  show ?case
  proof (cases j)
    case 0
    then show ?thesis by simp
  next
    case (Suc i)
    with Cons.prems have "xs ! i \<noteq> x" and "position (xs ! i) xs = Some i"
      using Cons.IH [of i] by auto
    with Suc show ?thesis by simp
  qed
qed

lemma position_in_set: "c \<in> set xs \<Longrightarrow> \<exists>j. position c xs = Some j"
  using position_None [of c xs] by (cases "position c xs") auto

lemma position_append_old:
  "position c xs = Some j \<Longrightarrow> position c (xs @ ys) = Some j"
  by (induction xs arbitrary: j) (auto split: if_splits)

lemma cellules_matrice:
  "length idx = length m \<Longrightarrow> \<forall>r \<in> set m. j < length r \<Longrightarrow>
     map (\<lambda>(k, r). (k, cell_at r j)) (zip idx (map (map Num) m)) =
       zip idx (map (\<lambda>r. Num (r ! j)) m)"
  by (induction idx m rule: list_induct2) (auto simp: cell_at_def)

lemma getitem_DataFrame:
  assumes "DataFrame m noms idx = Inr g0" and "distinct noms" and "j < length noms"
  shows "getitem g0 (noms ! j) = Inr (zip idx (map (\<lambda>r. Num (r ! j)) m))"
proof -
  from assms(1) have l: "length m = length idx" and r: "\<forall>r \<in> set m. length r = length noms"
    and g0: "g0 = \<lparr>columns = noms, rows = zip idx (map (map Num) m)\<rparr>"
    by (auto simp: DataFrame_def split: if_splits)
  have p: "position (noms ! j) noms = Some j"
    using assms(2,3) by (rule position_distinct)
  have "map (\<lambda>(k, r). (k, cell_at r j)) (zip idx (map (map Num) m)) =
       zip idx (map (\<lambda>r. Num (r ! j)) m)"
    using l r assms(3) by (intro cellules_matrice) simp_all
  then show ?thesis
    by (simp add: getitem_def g0 p)
qed

lemma cellules_inchangees:
  "length ls = length vs \<Longrightarrow> \<forall>l \<in> set ls. \<forall>v. cell_at (h (snd l) v) j = cell_at (snd l) j \<Longrightarrow>
     map (\<lambda>(k, r). (k, cell_at r j)) (map (\<lambda>((k, r), v). (k, h r v)) (zip ls vs)) =
       map (\<lambda>(k, r). (k, cell_at r j)) ls"
  by (induction ls vs rule: list_induct2) auto

lemma getitem_setitem_autre:
  assumes "rectangulaire f" and "length vs = length (rows f)" and "c' \<noteq> c"
    and "c' \<in> set (columns f)"
  shows "getitem (setitem f c vs) c' = getitem f c'"
proof -
  from position_in_set [OF assms(4)] obtain j where j: "position c' (columns f) = Some j"
    by blast
  have jl: "j < length (columns f)" and jc: "columns f ! j = c'"
    using position_Some [OF j] by simp_all
  have gf: "getitem f c' = Inr (map (\<lambda>(k, r). (k, cell_at r j)) (rows f))"
    by (simp add: getitem_def j)
  show ?thesis
  proof (cases "position c (columns f)")
    case None
    have "\<forall>l \<in> set (rows f). \<forall>v. cell_at (snd l @ [v]) j = cell_at (snd l) j"
      using assms(1) jl by (auto simp: rectangulaire_def cell_at_def nth_append)
    then have "map (\<lambda>(k, r). (k, cell_at r j))
            (map (\<lambda>((k, r), v). (k, r @ [v])) (zip (rows f) vs)) =
          map (\<lambda>(k, r). (k, cell_at r j)) (rows f)"
      using assms(2) by (intro cellules_inchangees) simp_all
    then have "getitem (setitem f c vs) c' =
        Inr (map (\<lambda>(k, r). (k, cell_at r j)) (rows f))"
      by (simp only: setitem_nouvelle_colonne [OF None] getitem_def frame.simps
          position_append_old [OF j] option.case)
    with gf show ?thesis by simp
  next
    case (Some i)
    have "columns f ! i = c"
      using position_Some [OF Some] by simp
    with jc assms(3) have ij: "i \<noteq> j"
      by auto
    have "\<forall>l \<in> set (rows f). \<forall>v. cell_at ((snd l)[i := v]) j = cell_at (snd l) j"
      using ij by (auto simp: cell_at_def)
    then have "map (\<lambda>(k, r). (k, cell_at r j))
            (map (\<lambda>((k, r), v). (k, r[i := v])) (zip (rows f) vs)) =
          map (\<lambda>(k, r). (k, cell_at r j)) (rows f)"
      using assms(2) by (intro cellules_inchangees) simp_all
    then have "getitem (setitem f c vs) c' =
        Inr (map (\<lambda>(k, r). (k, cell_at r j)) (rows f))"
      by (simp only: setitem_colonne_existante [OF Some] getitem_def frame.simps j option.case)
    with gf show ?thesis by simp
  qed
qed

lemma setitem_series_setitem:
  assumes "setitem_series f c s = Inr f'"
  shows "\<exists>vs. f' = setitem f c vs \<and> length vs = length (rows f)"
proof (cases "map fst s = index f")
  case True
  then have "length (map snd s) = length (rows f)"
    by (metis index_def length_map)
  moreover have "f' = setitem f c (map snd s)"
    using assms True by (simp add: setitem_series_def)
  ultimately show ?thesis
    by blast
next
  case False
  then have "f' = setitem f c
                (map (\<lambda>k. case map_of s k of Some v \<Rightarrow> v | None \<Rightarrow> NA) (index f))"
    using assms by (simp add: setitem_series_def split: if_splits)
  moreover have "length (map (\<lambda>k. case map_of s k of Some v \<Rightarrow> v | None \<Rightarrow> NA) (index f)) =
      length (rows f)"
    by (simp add: index_def)
  ultimately show ?thesis
    by blast
qed

lemma cellules_du_graphique:
  assumes g0: "DataFrame m noms (index num) = Inr g0"
    and fin: "case couleur of
                 None \<Rightarrow> g = setitem g0 ''hover_name'' (valeurs_survol g0)
               | Some s \<Rightarrow>
                   setitem_series (setitem g0 ''hover_name'' (valeurs_survol g0)) c s = Inr g"
    and d: "distinct noms" and h: "''hover_name'' \<notin> set noms"
    and libre: "couleur \<noteq> None \<longrightarrow> c \<notin> set noms"
    and j: "j < length noms"
  shows "getitem g (noms ! j) = Inr (zip (index num) (map (\<lambda>r. Num (r ! j)) m))"
proof -
  define g1 where "g1 = setitem g0 ''hover_name'' (valeurs_survol g0)"
  have nj: "noms ! j \<in> set noms"
    using j by simp
  have l0: "length (valeurs_survol g0) = length (rows g0)"
    by (simp add: valeurs_survol_def index_def)
  have c0: "columns g0 = noms" and r0: "rectangulaire g0"
    using DataFrame_Inr(1,3) [OF g0] by simp_all
  have e0: "getitem g0 (noms ! j) = Inr (zip (index num) (map (\<lambda>r. Num (r ! j)) m))"
    using getitem_DataFrame [OF g0 d j] .
  have "noms ! j \<noteq> ''hover_name''"
    using nj h by auto
  then have e1: "getitem g1 (noms ! j) = getitem g0 (noms ! j)"
    unfolding g1_def using r0 l0 nj c0 by (intro getitem_setitem_autre) simp_all
  have r1: "rectangulaire g1"
    unfolding g1_def using r0 by (rule rectangulaire_setitem)
  have c1: "noms ! j \<in> set (columns g1)"
    unfolding g1_def using nj c0 by (simp add: columns_setitem)
  show ?thesis
  proof (cases couleur)
    case None
    with fin have "g = g1"
      by (simp add: g1_def)
    with e0 e1 show ?thesis by simp
  next
    case (Some s)
    with fin have "setitem_series g1 c s = Inr g"
      by (simp add: g1_def)
    from setitem_series_setitem [OF this] obtain vs where
      g: "g = setitem g1 c vs" and lv: "length vs = length (rows g1)"
      by blast
    from Some libre nj have "noms ! j \<noteq> c"
      by auto
    then have "getitem g (noms ! j) = getitem g1 (noms ! j)"
      unfolding g using r1 lv c1 by (intro getitem_setitem_autre) simp_all
    with e0 e1 show ?thesis by simp
  qed
qed

section \<open>The coordinate columns\<close>

text \<open>
  C3, as amended. When the orchestration succeeds with 2 or 3 components, the method
  that ran is \<open>acp\<close>, \<open>tsne\<close> or \<open>umap\<close>, and the frame handed to plotly starts with that
  many columns named \<open>PC_1..\<close>, \<open>TSNE_1..\<close> or \<open>UMAP_1..\<close> after the method alone,
  followed by \<open>hover_name\<close> and, when a colour column is asked for under a name not yet
  taken, by that column. When the colour column asked for is not named like one of
  these coordinate columns, each of them holds, row key by row key, the coordinates
  that the reduction returned for the numeric frame.
\<close>

theorem reduction_colonnes:
  assumes "creer_graphique_interactif b donnees_brutes methode n parametres =
             (Inr (html, nom), evs)"
    and "n = 2 \<or> n = 3"
  shows "\<exists>g noms evs1 evs2 P donnees_propres donnees_numeriques m.
           donnees_graphique b donnees_brutes methode n parametres = (Inr (g, noms, nom), evs1)
           \<and> generer_graphique b g noms nom n parametres = (Inr html, evs2)
           \<and> ((nom = ''acp'' \<and> P = ''PC'') \<or> (nom = ''tsne'' \<and> P = ''TSNE'')
              \<or> (nom = ''umap'' \<and> P = ''UMAP''))
           \<and> noms = (if n = 2 then [P @ ''_1'', P @ ''_2'']
                      else [P @ ''_1'', P @ ''_2'', P @ ''_3''])
           \<and> length noms = n
           \<and> columns g =
               noms @ ''hover_name'' #
                 (case couleur_demandee parametres of
                    None \<Rightarrow> []
                  | Some c \<Rightarrow> if c \<in> set noms \<or> c = ''hover_name'' then [] else [c])
           \<and> preparation b donnees_brutes = Inr (donnees_propres, donnees_numeriques)
           \<and> fst (executer_reduction b nom donnees_numeriques n parametres) =
               Inr (Some (m, noms))
           \<and> ((\<forall>c. couleur_demandee parametres = Some c \<longrightarrow> c \<notin> set noms) \<longrightarrow>
                (\<forall>j<n. getitem g (noms ! j) =
                         Inr (zip (index donnees_numeriques) (map (\<lambda>r. Num (r ! j)) m))))"
proof -
  from creer_graphique_interactif_Inr [OF assms(1)] obtain g noms evs1 evs2 where
    d: "donnees_graphique b donnees_brutes methode n parametres = (Inr (g, noms, nom), evs1)"
    and p: "generer_graphique b g noms nom n parametres = (Inr html, evs2)"
    by blast
  from colonnes_du_graphique [OF d assms(2)] obtain P where
    P: "(nom = ''acp'' \<and> P = ''PC'') \<or> (nom = ''tsne'' \<and> P = ''TSNE'')
          \<or> (nom = ''umap'' \<and> P = ''UMAP'')"
    and e: "noms = (if n = 2 then [P @ ''_1'', P @ ''_2'']
                      else [P @ ''_1'', P @ ''_2'', P @ ''_3''])"
    and ln: "length noms = n"
    and cg: "columns g =
               noms @ ''hover_name'' #
                 (case couleur_demandee parametres of
                    None \<Rightarrow> []
                  | Some c \<Rightarrow> if c \<in> set noms \<or> c = ''hover_name'' then [] else [c])"
    by blast
  from donnees_graphique_Inr [OF d] obtain propres num couleur r evs3 evs4 where
    prep: "preparation b donnees_brutes = Inr (propres, num)"
    and coul: "gerer_couleur parametres donnees_brutes propres num = Inr couleur"
    and ex: "executer_reduction b nom num n parametres = (Inr r, evs4)"
    and df: "preparer_dataframe r num parametres couleur = Inr (g, noms)"
    by blast
  from preparer_dataframe_Inr [OF df] obtain m g0 where
    r: "r = Some (m, noms)"
    and g0: "DataFrame m noms (index num) = Inr g0"
    and fin: "case couleur of
                 None \<Rightarrow> g = setitem g0 ''hover_name'' (valeurs_survol g0)
               | Some s \<Rightarrow>
                   setitem_series (setitem g0 ''hover_name'' (valeurs_survol g0))
                     (valeur_ou_defaut (colonne_couleur parametres) []) s = Inr g"
    by blast
  have fx: "fst (executer_reduction b nom num n parametres) = Inr (Some (m, noms))"
    using ex r by simp
  have dn: "distinct noms"
    using e by (auto split: if_splits)
  have hn: "''hover_name'' \<notin> set noms"
    using e P by (auto split: if_splits)
  have cells: "\<forall>j<n. getitem g (noms ! j) =
                         Inr (zip (index num) (map (\<lambda>r. Num (r ! j)) m))"
    if libre: "\<forall>c. couleur_demandee parametres = Some c \<longrightarrow> c \<notin> set noms"
  proof (intro allI impI)
    fix j
    assume "j < n"
    then have j: "j < length noms"
      using ln by simp
    have l: "couleur \<noteq> None \<longrightarrow> valeur_ou_defaut (colonne_couleur parametres) [] \<notin> set noms"
    proof
      assume "couleur \<noteq> None"
      with gerer_couleur_Inr [OF coul] obtain c where
        "couleur_demandee parametres = Some c" and "colonne_couleur parametres = Some c"
        by (cases "couleur_demandee parametres") auto
      with libre show "valeur_ou_defaut (colonne_couleur parametres) [] \<notin> set noms"
        by (simp add: valeur_ou_defaut_def)
    qed
    show "getitem g (noms ! j) = Inr (zip (index num) (map (\<lambda>r. Num (r ! j)) m))"
      using cellules_du_graphique [OF g0 fin dn hn l j] .
  qed
  from d p P e ln cg prep fx cells show ?thesis
    by blast
qed

lemma donnees_graphique_pc:
  "donnees_graphique bibliotheques_exemple frame_pc ''acp'' 2 parametres_pc =
     (Inr (graphique_pc, [''PC_1'', ''PC_2''], ''acp''), [Appel_ACP 2])"
  by (simp add: exemples orchestration modules_spec parametres_pc_def frame_pc_def
      graphique_pc_def noms_colonnes_2 DataFrame_def index_def setitem_def
      setitem_series_def loc_def str_nat.simps chiffre_def replicate_2)

text \<open>
  C3 as stated fails: on an upload that has a column \<open>PC_1\<close>, a request that takes it
  as the colour column succeeds, and the column \<open>PC_1\<close> of the result holds the labels
  of the upload, not coordinates: one coordinate column is left.
\<close>

theorem reduction_colonnes_counterexample:
  "creer_graphique_interactif bibliotheques_exemple frame_pc ''acp'' 2 parametres_pc =
     (Inr (''Visualisation Interactive (ACP 2D)'', ''acp''),
      [Appel_ACP 2, Appel_plotly ''Visualisation Interactive (ACP 2D)''])
   \<and> donnees_graphique bibliotheques_exemple frame_pc ''acp'' 2 parametres_pc =
       (Inr (graphique_pc, [''PC_1'', ''PC_2''], ''acp''), [Appel_ACP 2])
   \<and> columns graphique_pc = [''PC_1'', ''PC_2'', ''hover_name'']
   \<and> getitem graphique_pc ''PC_1'' = Inr [(0, Txt ''a''), (1, Txt ''b'')]
   \<and> getitem graphique_pc ''PC_2'' = Inr [(0, Num 0), (1, Num 0)]
   \<and> getitem frame_pc ''PC_1'' = Inr [(0, Txt ''a''), (1, Txt ''b'')]"
proof -
  have g: "generer_graphique bibliotheques_exemple graphique_pc [''PC_1'', ''PC_2'']
             ''acp'' 2 parametres_pc =
           (Inr ''Visualisation Interactive (ACP 2D)'',
            [Appel_plotly ''Visualisation Interactive (ACP 2D)''])"
    by (simp add: generer_graphique_def bibliotheques_exemple_def parametres_pc_def
        parametres_defaut_def upper_def upper_char_def str_nat.simps chiffre_def Let_def)
  have c: "creer_graphique_interactif bibliotheques_exemple frame_pc ''acp'' 2 parametres_pc =
     (Inr (''Visualisation Interactive (ACP 2D)'', ''acp''),
      [Appel_ACP 2, Appel_plotly ''Visualisation Interactive (ACP 2D)''])"
    unfolding creer_graphique_interactif_def donnees_graphique_pc
    by (simp add: g)
  have r: "columns graphique_pc = [''PC_1'', ''PC_2'', ''hover_name'']
   \<and> getitem graphique_pc ''PC_1'' = Inr [(0, Txt ''a''), (1, Txt ''b'')]
   \<and> getitem graphique_pc ''PC_2'' = Inr [(0, Num 0), (1, Num 0)]
   \<and> getitem frame_pc ''PC_1'' = Inr [(0, Txt ''a''), (1, Txt ''b'')]"
    by (simp add: graphique_pc_def frame_pc_def getitem_def cell_at_def)
  from c donnees_graphique_pc r show ?thesis
    by blast
qed

theorem reduction_colonnes_witness:
  "creer_graphique_interactif bibliotheques_exemple frame_exemple ''acp'' 2 parametres_groupe =
     (Inr (''Visualisation Interactive (ACP 2D)'', ''acp''),
      [Appel_ACP 2, Appel_plotly ''Visualisation Interactive (ACP 2D)''])
   \<and> ((2::nat) = 2 \<or> (2::nat) = 3)
   \<and> (\<exists>g noms evs1 evs2 P donnees_propres donnees_numeriques m.
           donnees_graphique bibliotheques_exemple frame_exemple ''acp'' 2 parametres_groupe =
             (Inr (g, noms, ''acp''), evs1)
           \<and> generer_graphique bibliotheques_exemple g noms ''acp'' 2 parametres_groupe =
               (Inr ''Visualisation Interactive (ACP 2D)'', evs2)
           \<and> ((''acp'' = ''acp'' \<and> P = ''PC'') \<or> (''acp'' = ''tsne'' \<and> P = ''TSNE'')
              \<or> (''acp'' = ''umap'' \<and> P = ''UMAP''))
           \<and> noms = (if (2::nat) = 2 then [P @ ''_1'', P @ ''_2'']
                      else [P @ ''_1'', P @ ''_2'', P @ ''_3''])
           \<and> length noms = 2
           \<and> columns g =
               noms @ ''hover_name'' #
                 (case couleur_demandee parametres_groupe of
                    None \<Rightarrow> []
                  | Some c \<Rightarrow> if c \<in> set noms \<or> c = ''hover_name'' then [] else [c])
           \<and> preparation bibliotheques_exemple frame_exemple =
               Inr (donnees_propres, donnees_numeriques)
           \<and> fst (executer_reduction bibliotheques_exemple ''acp'' donnees_numeriques 2
                    parametres_groupe) = Inr (Some (m, noms))
           \<and> ((\<forall>c. couleur_demandee parametres_groupe = Some c \<longrightarrow> c \<notin> set noms) \<longrightarrow>
                (\<forall>j<2. getitem g (noms ! j) =
                         Inr (zip (index donnees_numeriques) (map (\<lambda>r. Num (r ! j)) m)))))
   \<and> donnees_graphique bibliotheques_exemple frame_exemple ''acp'' 2 parametres_groupe =
       (Inr (graphique_exemple, [''PC_1'', ''PC_2''], ''acp''), [Appel_ACP 2])
   \<and> couleur_demandee parametres_groupe = Some ''groupe''
   \<and> ''groupe'' \<notin> set [''PC_1'', ''PC_2'']
   \<and> columns graphique_exemple = [''PC_1'', ''PC_2'', ''hover_name'', ''groupe'']
   \<and> getitem graphique_exemple ''PC_1'' = Inr [(0, Num 0), (2, Num 0), (3, Num 0)]
   \<and> getitem graphique_exemple ''PC_2'' = Inr [(0, Num 0), (2, Num 0), (3, Num 0)]"
proof (intro conjI)
  show "creer_graphique_interactif bibliotheques_exemple frame_exemple ''acp'' 2
          parametres_groupe =
     (Inr (''Visualisation Interactive (ACP 2D)'', ''acp''),
      [Appel_ACP 2, Appel_plotly ''Visualisation Interactive (ACP 2D)''])"
    by (rule creer_graphique_exemple)
  show n: "(2::nat) = 2 \<or> (2::nat) = 3"
    by simp
  show "\<exists>g noms evs1 evs2 P donnees_propres donnees_numeriques m.
           donnees_graphique bibliotheques_exemple frame_exemple ''acp'' 2 parametres_groupe =
             (Inr (g, noms, ''acp''), evs1)
           \<and> generer_graphique bibliotheques_exemple g noms ''acp'' 2 parametres_groupe =
               (Inr ''Visualisation Interactive (ACP 2D)'', evs2)
           \<and> ((''acp'' = ''acp'' \<and> P = ''PC'') \<or> (''acp'' = ''tsne'' \<and> P = ''TSNE'')
              \<or> (''acp'' = ''umap'' \<and> P = ''UMAP''))
           \<and> noms = (if (2::nat) = 2 then [P @ ''_1'', P @ ''_2'']
                      else [P @ ''_1'', P @ ''_2'', P @ ''_3''])
           \<and> length noms = 2
           \<and> columns g =
               noms @ ''hover_name'' #
                 (case couleur_demandee parametres_groupe of
                    None \<Rightarrow> []
                  | Some c \<Rightarrow> if c \<in> set noms \<or> c = ''hover_name'' then [] else [c])
           \<and> preparation bibliotheques_exemple frame_exemple =
               Inr (donnees_propres, donnees_numeriques)
           \<and> fst (executer_reduction bibliotheques_exemple ''acp'' donnees_numeriques 2
                    parametres_groupe) = Inr (Some (m, noms))
           \<and> ((\<forall>c. couleur_demandee parametres_groupe = Some c \<longrightarrow> c \<notin> set noms) \<longrightarrow>
                (\<forall>j<2. getitem g (noms ! j) =
                         Inr (zip (index donnees_numeriques) (map (\<lambda>r. Num (r ! j)) m))))"
    by (rule reduction_colonnes [OF creer_graphique_exemple n])
  show "donnees_graphique bibliotheques_exemple frame_exemple ''acp'' 2 parametres_groupe =
       (Inr (graphique_exemple, [''PC_1'', ''PC_2''], ''acp''), [Appel_ACP 2])"
    by (rule donnees_graphique_exemple)
  show "couleur_demandee parametres_groupe = Some ''groupe''"
    by (simp add: couleur_demandee_def parametres_groupe_def parametres_defaut_def)
  show "''groupe'' \<notin> set [''PC_1'', ''PC_2'']"
    by simp
  show "columns graphique_exemple = [''PC_1'', ''PC_2'', ''hover_name'', ''groupe'']"
    by (simp add: graphique_exemple_def)
  show "getitem graphique_exemple ''PC_1'' = Inr [(0, Num 0), (2, Num 0), (3, Num 0)]"
    by (simp add: graphique_exemple_def getitem_def cell_at_def)
  show "getitem graphique_exemple ''PC_2'' = Inr [(0, Num 0), (2, Num 0), (3, Num 0)]"
    by (simp add: graphique_exemple_def getitem_def cell_at_def)
qed

end
